theory Spec2Isabelle
  imports Complex_Main
begin

section \<open>JavaScript values\<close>

text \<open>
  The library under verification (schema-object, the ES6 source in the second half of
  \<^verbatim>\<open>src/unnamed/part_000\<close>) casts loosely typed JavaScript values. The values it
  inspects are modelled by the datatype below. Numbers are the IEEE specials together with
  exact rationals (the rounding of doubles is not modelled; no operation of the library
  other than parsing and comparison touches a number). Strings are lists of 8-bit
  characters, so \<open>length\<close> is the JavaScript \<^verbatim>\<open>.length\<close> for Latin-1 text.
  A regular expression is its source text together with its \<^verbatim>\<open>test\<close> function.
\<close>

datatype jsnum = NaN | PInf | NInf | Fin rat

datatype jsval =
    Undefined
  | Null
  | Bool bool
  | Num jsnum
  | Str string
  | DateV jsnum
  | RegExpV string "string \<Rightarrow> bool"
  | Arr "jsval list"
  | Obj "(string \<times> jsval) list"

text \<open>
  Error classes of the source (\<^verbatim>\<open>SetterError\<close> and its subclasses), with two more for
  what the JavaScript runtime itself throws (\<open>TypeError\<close>) and for what a user hook throws
  (\<open>HookError\<close>).
\<close>

datatype errclass =
    SetterError
  | CastError
  | StringCastError
  | NumberCastError
  | ArrayCastError
  | ObjectCastError
  | DateCastError
  | ValidationError
  | StringValidationError
  | StringEnumValidationError
  | StringMinLengthValidationError
  | StringMaxLengthValidationError
  | StringRegexValidationError
  | NumberValidationError
  | NumberMinValidationError
  | NumberMaxValidationError
  | DateValidationError
  | DateParseValidationError
  | TypeError
  | HookError

fun errorCode :: "errclass \<Rightarrow> nat" where
  "errorCode SetterError = 1000"
| "errorCode CastError = 1100"
| "errorCode StringCastError = 1101"
| "errorCode NumberCastError = 1102"
| "errorCode ArrayCastError = 1103"
| "errorCode ObjectCastError = 1104"
| "errorCode DateCastError = 1105"
| "errorCode ValidationError = 1200"
| "errorCode StringValidationError = 1210"
| "errorCode StringEnumValidationError = 1211"
| "errorCode StringMinLengthValidationError = 1212"
| "errorCode StringMaxLengthValidationError = 1213"
| "errorCode StringRegexValidationError = 1214"
| "errorCode NumberValidationError = 1220"
| "errorCode NumberMinValidationError = 1221"
| "errorCode NumberMaxValidationError = 1222"
| "errorCode DateValidationError = 1230"
| "errorCode DateParseValidationError = 1231"
| "errorCode TypeError = 0"
| "errorCode HookError = 0"

text \<open>
  \<^verbatim>\<open>errorType\<close> is set by the constructors of \<^verbatim>\<open>CastError\<close> and
  \<^verbatim>\<open>ValidationError\<close> and inherited by their subclasses; a plain
  \<^verbatim>\<open>SetterError\<close> has none.
\<close>

fun errorType :: "errclass \<Rightarrow> string option" where
  "errorType CastError = Some ''CastError''"
| "errorType StringCastError = Some ''CastError''"
| "errorType NumberCastError = Some ''CastError''"
| "errorType ArrayCastError = Some ''CastError''"
| "errorType ObjectCastError = Some ''CastError''"
| "errorType DateCastError = Some ''CastError''"
| "errorType ValidationError = Some ''ValidationError''"
| "errorType StringValidationError = Some ''ValidationError''"
| "errorType StringEnumValidationError = Some ''ValidationError''"
| "errorType StringMinLengthValidationError = Some ''ValidationError''"
| "errorType StringMaxLengthValidationError = Some ''ValidationError''"
| "errorType StringRegexValidationError = Some ''ValidationError''"
| "errorType NumberValidationError = Some ''ValidationError''"
| "errorType NumberMinValidationError = Some ''ValidationError''"
| "errorType NumberMaxValidationError = Some ''ValidationError''"
| "errorType DateValidationError = Some ''ValidationError''"
| "errorType DateParseValidationError = Some ''ValidationError''"
| "errorType SetterError = None"
| "errorType TypeError = None"
| "errorType HookError = None"

text \<open>
  What an instance stores in a field: a plain value, a nested \<^verbatim>\<open>SchemaObjectInstance\<close>
  (its raw store \<^verbatim>\<open>_obj\<close> and its error log \<^verbatim>\<open>_errors\<close>), or a
  \<^verbatim>\<open>SchemaArray\<close> (its elements). An error record keeps the rejected input, the
  previous value and, in place of the reference to the field descriptor, the descriptor's
  \<^verbatim>\<open>name\<close>.
\<close>

datatype sval =
    Plain jsval
  | Instance "(string \<times> sval) list" "err list"
  | SchemaArray "sval list"
and err =
    Err (errorClass: errclass) (errorMessage: jsval) (setValue: sval) (originalValue: sval)
        (fieldName: "string option")

type_synonym istate = "(string \<times> sval) list \<times> err list"

section \<open>The JavaScript runtime\<close>

text \<open>
  The built-ins the library calls are parameters of the model: \<^verbatim>\<open>Number(s)\<close> and
  \<^verbatim>\<open>parseFloat(s)\<close> on a string, the string of a number, \<^verbatim>\<open>Date.parse\<close> and the
  string of a date (by its time value).
\<close>

record runtime =
  Number_str :: "string \<Rightarrow> jsnum"
  parseFloat_str :: "string \<Rightarrow> jsnum"
  num_toString :: "jsnum \<Rightarrow> string"
  Date_parse :: "string \<Rightarrow> jsnum"
  date_toString :: "jsnum \<Rightarrow> string"

fun isNaN :: "jsnum \<Rightarrow> bool" where
  "isNaN NaN = True"
| "isNaN _ = False"

fun isFinite :: "jsnum \<Rightarrow> bool" where
  "isFinite (Fin r) = True"
| "isFinite _ = False"

fun num_lt :: "jsnum \<Rightarrow> jsnum \<Rightarrow> bool" where
  "num_lt (Fin a) (Fin b) = (a < b)"
| "num_lt (Fin a) PInf = True"
| "num_lt NInf (Fin b) = True"
| "num_lt NInf PInf = True"
| "num_lt _ _ = False"

fun num_eq :: "jsnum \<Rightarrow> jsnum \<Rightarrow> bool" where
  "num_eq (Fin a) (Fin b) = (a = b)"
| "num_eq PInf PInf = True"
| "num_eq NInf NInf = True"
| "num_eq _ _ = False"

fun times1000 :: "jsnum \<Rightarrow> jsnum" where
  "times1000 (Fin r) = Fin (r * 1000)"
| "times1000 x = x"

text \<open>\<^verbatim>\<open>new Date(t)\<close> for a number: the time value is clipped and truncated.\<close>

fun timeClip :: "jsnum \<Rightarrow> jsnum" where
  "timeClip (Fin r) =
     (if 8640000000000000 < \<bar>r\<bar> then NaN
      else Fin (of_int (if 0 \<le> r then \<lfloor>r\<rfloor> else \<lceil>r\<rceil>)))"
| "timeClip _ = NaN"

fun join_with :: "string \<Rightarrow> string list \<Rightarrow> string" where
  "join_with sep [] = []"
| "join_with sep [s] = s"
| "join_with sep (s # t # ss) = s @ sep @ join_with sep (t # ss)"

fun ToString :: "runtime \<Rightarrow> jsval \<Rightarrow> string"
and joinElem :: "runtime \<Rightarrow> jsval \<Rightarrow> string" where
  "ToString rt Undefined = ''undefined''"
| "ToString rt Null = ''null''"
| "ToString rt (Bool b) = (if b then ''true'' else ''false'')"
| "ToString rt (Num n) = num_toString rt n"
| "ToString rt (Str s) = s"
| "ToString rt (DateV t) = date_toString rt t"
| "ToString rt (RegExpV src tst) = src"
| "ToString rt (Arr xs) = join_with '','' (map (joinElem rt) xs)"
| "ToString rt (Obj kvs) = ''[object Object]''"
| "joinElem rt Undefined = []"
| "joinElem rt Null = []"
| "joinElem rt v = ToString rt v"

fun ToNumber :: "runtime \<Rightarrow> jsval \<Rightarrow> jsnum" where
  "ToNumber rt Undefined = NaN"
| "ToNumber rt Null = Fin 0"
| "ToNumber rt (Bool b) = (if b then Fin 1 else Fin 0)"
| "ToNumber rt (Num n) = n"
| "ToNumber rt (Str s) = Number_str rt s"
| "ToNumber rt (DateV t) = t"
| "ToNumber rt v = Number_str rt (ToString rt v)"

text \<open>Lodash's and the language's type tests.\<close>

fun isObject :: "jsval \<Rightarrow> bool" where
  "isObject (DateV t) = True"
| "isObject (RegExpV src tst) = True"
| "isObject (Arr xs) = True"
| "isObject (Obj kvs) = True"
| "isObject _ = False"

fun isArray :: "jsval \<Rightarrow> bool" where
  "isArray (Arr xs) = True"
| "isArray _ = False"

fun isDate :: "jsval \<Rightarrow> bool" where
  "isDate (DateV t) = True"
| "isDate _ = False"

fun isString :: "jsval \<Rightarrow> bool" where
  "isString (Str s) = True"
| "isString _ = False"

fun isNumber :: "jsval \<Rightarrow> bool" where
  "isNumber (Num n) = True"
| "isNumber _ = False"

fun isBoolean :: "jsval \<Rightarrow> bool" where
  "isBoolean (Bool b) = True"
| "isBoolean _ = False"

fun truthy :: "jsval \<Rightarrow> bool" where
  "truthy Undefined = False"
| "truthy Null = False"
| "truthy (Bool b) = b"
| "truthy (Num (Fin r)) = (r \<noteq> 0)"
| "truthy (Num NaN) = False"
| "truthy (Num _) = True"
| "truthy (Str s) = (s \<noteq> [])"
| "truthy _ = True"

fun truthy_s :: "sval \<Rightarrow> bool" where
  "truthy_s (Plain v) = truthy v"
| "truthy_s _ = True"

text \<open>
  \<^verbatim>\<open>isNumeric(n)\<close> of the source: \<^verbatim>\<open>!isNaN(parseFloat(n)) && isFinite(n)\<close>.
\<close>

definition isNumeric :: "runtime \<Rightarrow> jsval \<Rightarrow> bool" where
  "isNumeric rt n =
     (\<not> isNaN (parseFloat_str rt (ToString rt n)) \<and> isFinite (ToNumber rt n))"

text \<open>
  The relational operator \<^verbatim>\<open><\<close>: two strings compare by code units, anything else
  as numbers (objects through their primitive value first).
\<close>

fun str_lt :: "string \<Rightarrow> string \<Rightarrow> bool" where
  "str_lt [] [] = False"
| "str_lt [] (d # t) = True"
| "str_lt (c # s) [] = False"
| "str_lt (c # s) (d # t) =
     (if (of_char c :: nat) < of_char d then True
      else if (of_char d :: nat) < of_char c then False
      else str_lt s t)"

fun ToPrimitive :: "runtime \<Rightarrow> jsval \<Rightarrow> jsval" where
  "ToPrimitive rt (DateV t) = Num t"
| "ToPrimitive rt (RegExpV src tst) = Str src"
| "ToPrimitive rt (Arr xs) = Str (ToString rt (Arr xs))"
| "ToPrimitive rt (Obj kvs) = Str (ToString rt (Obj kvs))"
| "ToPrimitive rt v = v"

definition js_lt :: "runtime \<Rightarrow> jsval \<Rightarrow> jsval \<Rightarrow> bool" where
  "js_lt rt a b =
     (case (ToPrimitive rt a, ToPrimitive rt b) of
        (Str s, Str t) \<Rightarrow> str_lt s t
      | (x, y) \<Rightarrow> num_lt (ToNumber rt x) (ToNumber rt y))"

text \<open>Property and index reads; a missing key or index reads \<^verbatim>\<open>undefined\<close>.\<close>

definition getProp :: "(string \<times> jsval) list \<Rightarrow> string \<Rightarrow> jsval" where
  "getProp kvs k = (case map_of kvs k of None \<Rightarrow> Undefined | Some v \<Rightarrow> v)"

definition at_index :: "jsval list \<Rightarrow> nat \<Rightarrow> jsval" where
  "at_index xs i = (if i < length xs then xs ! i else Undefined)"

definition isAbsent :: "jsval \<Rightarrow> bool" where
  "isAbsent v = (v = Undefined \<or> v = Null \<or> v = Str [])"

text \<open>
  Strict equality as \<^verbatim>\<open>Array.prototype.indexOf\<close> uses it: primitives by value
  (\<^verbatim>\<open>NaN\<close> equals nothing), objects by reference; two object values of the model
  are taken to be different references.
\<close>

fun strictEq :: "jsval \<Rightarrow> jsval \<Rightarrow> bool" where
  "strictEq Undefined Undefined = True"
| "strictEq Null Null = True"
| "strictEq (Bool a) (Bool b) = (a = b)"
| "strictEq (Num a) (Num b) = num_eq a b"
| "strictEq (Str s) (Str t) = (s = t)"
| "strictEq _ _ = False"

definition indexOfFound :: "jsval \<Rightarrow> jsval \<Rightarrow> bool" where
  "indexOfFound arr v = (case arr of Arr xs \<Rightarrow> list_ex (\<lambda>x. strictEq x v) xs | _ \<Rightarrow> False)"

text \<open>The operator \<^verbatim>\<open>==\<close> against a string literal.\<close>

fun looseEqStr :: "runtime \<Rightarrow> jsval \<Rightarrow> string \<Rightarrow> bool" where
  "looseEqStr rt (Str s) t = (s = t)"
| "looseEqStr rt (Num n) t = num_eq n (Number_str rt t)"
| "looseEqStr rt (Bool b) t = num_eq (if b then Fin 1 else Fin 0) (Number_str rt t)"
| "looseEqStr rt Undefined t = False"
| "looseEqStr rt Null t = False"
| "looseEqStr rt v t = (ToString rt v = t)"

text \<open>\<^verbatim>\<open>new Date(x)\<close>.\<close>

fun newDate :: "runtime \<Rightarrow> jsval \<Rightarrow> jsval" where
  "newDate rt (DateV t) = DateV t"
| "newDate rt (Str s) = DateV (Date_parse rt s)"
| "newDate rt v = DateV (timeClip (ToNumber rt v))"

section \<open>Errors as values\<close>

definition bindE :: "'e + 'a \<Rightarrow> ('a \<Rightarrow> 'e + 'b) \<Rightarrow> 'e + 'b" where
  "bindE m f = (case m of Inl e \<Rightarrow> Inl e | Inr a \<Rightarrow> f a)"

text \<open>A \<^verbatim>\<open>TypeError\<close> of the runtime (a property read on \<^verbatim>\<open>null\<close>, a call of a non-function).\<close>

definition nativeTypeError :: err where
  "nativeTypeError = Err TypeError Undefined (Plain Undefined) (Plain Undefined) None"

text \<open>
  The error constructors take an optional custom message:
  \<^verbatim>\<open>errorMessage = errorMessage || '...'\<close>.
\<close>

definition orDefault :: "jsval \<Rightarrow> string \<Rightarrow> jsval" where
  "orDefault msg dflt = (if truthy msg then msg else Str dflt)"

fun defaultMessage :: "errclass \<Rightarrow> string" where
  "defaultMessage StringCastError = ''String type cannot typecast Object or Array types.''"
| "defaultMessage ArrayCastError = ''Array type cannot typecast non-Array types.''"
| "defaultMessage ObjectCastError = ''Object type cannot typecast non-Object types.''"
| "defaultMessage DateCastError = ''Date type cannot typecast Array or Object types.''"
| "defaultMessage StringEnumValidationError = ''String does not exist in enum list.''"
| "defaultMessage StringMinLengthValidationError =
     ''String length too short to meet minLength requirement.''"
| "defaultMessage StringMaxLengthValidationError =
     ''String length too long to meet maxLength requirement.''"
| "defaultMessage StringRegexValidationError =
     ''String does not match regular expression pattern.''"
| "defaultMessage NumberMinValidationError = ''Number is too small to meet min requirement.''"
| "defaultMessage NumberMaxValidationError = ''Number is too big to meet max requirement.''"
| "defaultMessage DateParseValidationError = ''Could not parse date.''"
| "defaultMessage _ = []"

section \<open>Field descriptors and options\<close>

datatype ftype = TString | TNumber | TBoolean | TDate | TArray | TObject | TAlias | TAny

text \<open>
  A declared default is a literal or a producer called with the instance;
  \<^verbatim>\<open>required\<close> is a value or a predicate called with the instance, bare or in the
  pair form \<^verbatim>\<open>[required, message]\<close>. Functions of the instance see its raw store.
\<close>

datatype dflt = DefaultValue jsval | DefaultFn "(string \<times> sval) list \<Rightarrow> jsval"

datatype reqcond = ReqValue jsval | ReqFn "(string \<times> sval) list \<Rightarrow> jsval"

datatype reqd = Required reqcond | RequiredPair reqcond jsval

text \<open>
  The options of a factory that the modelled code reads. The model covers the default
  \<^verbatim>\<open>strict: true\<close> without \<^verbatim>\<open>dotNotation\<close> and \<^verbatim>\<open>keysIgnoreCase\<close>: an
  assignment to an undeclared key is ignored. \<^verbatim>\<open>onBeforeValueSet\<close> gives what the hook
  returns; \<^verbatim>\<open>onValueSet\<close>, a notification, has no place in a model of pure hooks.
\<close>

record options =
  setUndefined :: bool
  preserveNull :: bool
  allowFalsyValues :: bool
  useDecimalNumberGroupSeparator :: bool
  onBeforeValueSet :: "(sval \<Rightarrow> string option \<Rightarrow> jsval) option"
  toObject_hook :: "(jsval \<Rightarrow> jsval) option"

text \<open>
  A normalized properties hash. A hook is a function of the value and the original value
  that returns or throws; it does not see or change anything else. A constraint that is
  not declared is \<open>Undefined\<close>.
\<close>

record attrs =
  name :: "string option"
  type_tag :: ftype
  transform :: "(jsval \<Rightarrow> sval \<Rightarrow> err + jsval) option"
  stringTransform :: "(jsval \<Rightarrow> sval \<Rightarrow> err + jsval) option"
  numberTransform :: "(jsval \<Rightarrow> sval \<Rightarrow> err + jsval) option"
  booleanTransform :: "(jsval \<Rightarrow> sval \<Rightarrow> err + jsval) option"
  dateTransform :: "(jsval \<Rightarrow> sval \<Rightarrow> err + jsval) option"
  getter_hook :: "(sval \<Rightarrow> err + sval) option"
  clip :: jsval
  enum_c :: jsval
  minLength :: jsval
  maxLength :: jsval
  regex :: jsval
  min_c :: jsval
  max_c :: jsval
  default_v :: "dflt option"
  readOnly :: bool
  invisible :: bool
  isAlias :: bool
  required :: "reqd option"
  unique :: bool
  filter_p :: "(sval \<Rightarrow> bool) option"
  index :: "string option"

text \<open>
  The descriptor proper adds the two recursive parts: the element descriptor of an array
  and the factory of a nested schema (its options and its schema). A schema lists its
  descriptors in declaration order; the key of a field is its \<open>name\<close>.
\<close>

datatype props =
    Props (attrs: attrs) (arrayType: "props option") (objectType: "factory option")
and factory =
    Factory (fopts: options) (fschema: "props list")

definition mkError :: "errclass \<Rightarrow> jsval \<Rightarrow> jsval \<Rightarrow> sval \<Rightarrow> attrs \<Rightarrow> err" where
  "mkError c msg v orig p =
     Err c (orDefault msg (defaultMessage c)) (Plain v) orig (name p)"

definition NumberCastError_of :: "string \<Rightarrow> jsval \<Rightarrow> sval \<Rightarrow> attrs \<Rightarrow> err" where
  "NumberCastError_of sourceType v orig p =
     Err NumberCastError (Str (''Number could not be typecast from the provided '' @ sourceType))
       (Plain v) orig (name p)"

section \<open>The typecast engine: scalar types\<close>

text \<open>
  \<^verbatim>\<open>detectCustomErrorMessage(key)\<close>, applied to \<^verbatim>\<open>properties[key]\<close>: the pair
  (value, errorMessage). \<^verbatim>\<open>typeof null\<close> is \<^verbatim>\<open>'object'\<close>, so a \<^verbatim>\<open>null\<close>
  constraint throws at \<^verbatim>\<open>.errorMessage\<close>.
\<close>

definition detectCustomErrorMessage :: "jsval \<Rightarrow> err + (jsval \<times> jsval)" where
  "detectCustomErrorMessage c =
     (case c of
        Null \<Rightarrow> Inl nativeTypeError
      | Obj kvs \<Rightarrow>
          (if truthy (getProp kvs ''errorMessage'') \<and> truthy (getProp kvs ''value'')
           then Inr (getProp kvs ''value'', getProp kvs ''errorMessage'')
           else Inr (c, Undefined))
      | Arr xs \<Rightarrow> Inr (at_index xs 0, at_index xs 1)
      | _ \<Rightarrow> Inr (c, Undefined))"

text \<open>The same detection written out for \<^verbatim>\<open>enum\<close>, whose bare form is itself an array.\<close>

definition detectEnum :: "jsval \<Rightarrow> err + (jsval \<times> jsval)" where
  "detectEnum c =
     (case c of
        Null \<Rightarrow> Inl nativeTypeError
      | Obj kvs \<Rightarrow>
          (if truthy (getProp kvs ''errorMessage'') \<and> truthy (getProp kvs ''value'')
           then Inr (getProp kvs ''value'', getProp kvs ''errorMessage'')
           else Inr (c, Undefined))
      | Arr xs \<Rightarrow>
          (if isArray (at_index xs 0) then Inr (at_index xs 0, at_index xs 1)
           else Inr (c, Undefined))
      | _ \<Rightarrow> Inr (c, Undefined))"

definition applyHook ::
  "(jsval \<Rightarrow> sval \<Rightarrow> err + jsval) option \<Rightarrow> jsval \<Rightarrow> sval \<Rightarrow> err + jsval" where
  "applyHook h v orig = (case h of None \<Rightarrow> Inr v | Some f \<Rightarrow> f v orig)"

text \<open>
  \<^verbatim>\<open>value.substr(0, n)\<close>: the length argument goes through \<^verbatim>\<open>ToNumber\<close> and is
  truncated, \<^verbatim>\<open>NaN\<close> counting as 0; on a value without \<^verbatim>\<open>substr\<close> the call throws.
\<close>

fun substr_take :: "jsnum \<Rightarrow> string \<Rightarrow> string" where
  "substr_take (Fin r) s = take (nat \<lfloor>r\<rfloor>) s"
| "substr_take PInf s = s"
| "substr_take _ s = []"

definition substr0 :: "runtime \<Rightarrow> jsval \<Rightarrow> jsval \<Rightarrow> err + jsval" where
  "substr0 rt v n =
     (case v of Str s \<Rightarrow> Inr (Str (substr_take (ToNumber rt n) s)) | _ \<Rightarrow> Inl nativeTypeError)"

text \<open>\<^verbatim>\<open>value.length\<close>; the read throws on \<^verbatim>\<open>undefined\<close> and \<^verbatim>\<open>null\<close>.\<close>

definition js_length :: "jsval \<Rightarrow> err + jsval" where
  "js_length v =
     (case v of
        Str s \<Rightarrow> Inr (Num (Fin (of_nat (length s))))
      | Arr xs \<Rightarrow> Inr (Num (Fin (of_nat (length xs))))
      | Obj kvs \<Rightarrow> Inr (getProp kvs ''length'')
      | Undefined \<Rightarrow> Inl nativeTypeError
      | Null \<Rightarrow> Inl nativeTypeError
      | _ \<Rightarrow> Inr Undefined)"

definition regex_test :: "runtime \<Rightarrow> jsval \<Rightarrow> jsval \<Rightarrow> err + bool" where
  "regex_test rt r v =
     (case r of RegExpV src tst \<Rightarrow> Inr (tst (ToString rt v)) | _ \<Rightarrow> Inl nativeTypeError)"

text \<open>\<^verbatim>\<open>case 'string'\<close> of \<^verbatim>\<open>typecast\<close>.\<close>

definition typecast_string :: "runtime \<Rightarrow> attrs \<Rightarrow> jsval \<Rightarrow> sval \<Rightarrow> err + jsval" where
  "typecast_string rt p value orig =
     (if isObject value then Inl (mkError StringCastError Undefined value orig p)
      else if value = Undefined \<or> value = Null then Inr Undefined
      else
        bindE (applyHook (stringTransform p) (Str (ToString rt value)) orig) (\<lambda>v1.
        bindE (if clip p \<noteq> Undefined \<and> maxLength p \<noteq> Undefined
               then substr0 rt v1 (maxLength p) else Inr v1) (\<lambda>v.
        bindE (detectEnum (enum_c p)) (\<lambda>(enumValue, enumMessage).
        if enumValue \<noteq> Undefined \<and> isArray enumValue \<and> \<not> indexOfFound enumValue v
        then Inl (mkError StringEnumValidationError enumMessage v orig p)
        else
        bindE (detectCustomErrorMessage (minLength p)) (\<lambda>(minValue, minMessage).
        bindE (if minValue = Undefined then Inr False
               else bindE (js_length v) (\<lambda>l. Inr (js_lt rt l minValue))) (\<lambda>tooShort.
        if tooShort
        then Inl (mkError StringMinLengthValidationError minMessage v orig p)
        else
        bindE (detectCustomErrorMessage (maxLength p)) (\<lambda>(maxValue, maxMessage).
        bindE (if maxValue = Undefined then Inr False
               else bindE (js_length v) (\<lambda>l. Inr (js_lt rt maxValue l))) (\<lambda>tooLong.
        if tooLong
        then Inl (mkError StringMaxLengthValidationError maxMessage v orig p)
        else
        bindE (detectCustomErrorMessage (regex p)) (\<lambda>(regexValue, regexMessage).
        bindE (if truthy regexValue then regex_test rt regexValue v else Inr True) (\<lambda>matches.
        if matches then Inr v
        else Inl (mkError StringRegexValidationError regexMessage v orig p)))))))))))"

text \<open>\<^verbatim>\<open>case 'number'\<close> of \<^verbatim>\<open>typecast\<close>.\<close>

definition normalizeSeparators :: "bool \<Rightarrow> string \<Rightarrow> string" where
  "normalizeSeparators useDecimal s =
     (if useDecimal
      then map (\<lambda>c. if c = CHR '','' then CHR ''.'' else c) (filter (\<lambda>c. c \<noteq> CHR ''.'') s)
      else filter (\<lambda>c. c \<noteq> CHR '','') s)"

definition typecast_number ::
  "runtime \<Rightarrow> options \<Rightarrow> attrs \<Rightarrow> jsval \<Rightarrow> sval \<Rightarrow> err + jsval" where
  "typecast_number rt opts p value orig =
     (if isAbsent value then Inr Undefined
      else
        let v1 = (case value of Bool b \<Rightarrow> Num (if b then Fin 1 else Fin 0) | _ \<Rightarrow> value);
            v2 = (case v1 of
                    Str s \<Rightarrow> Str (normalizeSeparators (useDecimalNumberGroupSeparator opts) s)
                  | _ \<Rightarrow> v1)
        in
        if isString v2 \<and> isNaN (ToNumber rt v2)
        then Inl (NumberCastError_of ''String'' v2 orig p)
        else if isArray v2 then Inl (NumberCastError_of ''Array'' v2 orig p)
        else if isObject v2 then Inl (NumberCastError_of ''Object'' v2 orig p)
        else if \<not> isNumeric rt v2
        then Inl (NumberCastError_of ''Non-numeric'' v2 orig p)
        else
        bindE (applyHook (numberTransform p) (Num (ToNumber rt v2)) orig) (\<lambda>v.
        bindE (detectCustomErrorMessage (min_c p)) (\<lambda>(minValue, minMessage).
        if minValue \<noteq> Undefined \<and> js_lt rt v minValue
        then Inl (mkError NumberMinValidationError minMessage v orig p)
        else
        bindE (detectCustomErrorMessage (max_c p)) (\<lambda>(maxValue, maxMessage).
        if maxValue \<noteq> Undefined \<and> js_lt rt maxValue v
        then Inl (mkError NumberMaxValidationError maxMessage v orig p)
        else Inr v))))"

text \<open>\<^verbatim>\<open>case 'boolean'\<close> of \<^verbatim>\<open>typecast\<close>.\<close>

definition typecast_boolean :: "runtime \<Rightarrow> attrs \<Rightarrow> jsval \<Rightarrow> sval \<Rightarrow> err + jsval" where
  "typecast_boolean rt p value orig =
     (if isAbsent value then Inr Undefined
      else if value = Str ''false'' then Inr (Bool False)
      else if isNumeric rt value then Inr (Bool (num_lt (Fin 0) (ToNumber rt value)))
      else applyHook (booleanTransform p) (Bool (truthy value)) orig)"

text \<open>\<^verbatim>\<open>case 'date'\<close> of \<^verbatim>\<open>typecast\<close>.\<close>

definition typecast_date :: "runtime \<Rightarrow> attrs \<Rightarrow> jsval \<Rightarrow> sval \<Rightarrow> err + jsval" where
  "typecast_date rt p value orig =
     (if isAbsent value then Inr Undefined
      else if \<not> isDate value \<and> \<not> isString value \<and> \<not> isNumber value
      then Inl (mkError DateCastError Undefined value orig p)
      else
        let v1 = (case value of Str s \<Rightarrow> Num (Date_parse rt s) | _ \<Rightarrow> value);
            v2 = (if isNumeric rt v1
                  then newDate rt (if 10 < length (ToString rt v1) then v1
                                  else Num (times1000 (ToNumber rt v1)))
                  else v1)
        in
        if looseEqStr rt v2 ''Invalid Date'' \<or> \<not> isDate v2
        then Inl (mkError DateParseValidationError Null v2 orig p)
        else applyHook (dateTransform p) v2 orig)"

section \<open>State, exceptions and loops\<close>

text \<open>
  A call of the library runs on a mutable object and either returns or throws; what it
  changed before throwing stays changed. Its model maps the state to the result
  (\<open>Inl\<close> the thrown error) and the new state. The recursion of the library through
  nested schemas and aliases is not bounded by its arguments (an alias may name itself), so
  the recursive functions below count their call depth down from a bound given as first
  argument, and \<open>None\<close> says that the bound was reached. A compiled schema is a value
  here, and the library never changes one but in two places: the constructor clears
  \<^verbatim>\<open>readOnly\<close> while it assigns a default (\<open>readOnlyOff\<close> below), and
  \<^verbatim>\<open>getErrors()\<close> renames the descriptors of a nested schema; a run that reaches the
  second has no result in the model, \<open>None\<close> again (see \<open>getErrors_sub\<close>).
\<close>

type_synonym ('a, 's) outcome = "((err + 'a) \<times> 's) option"

definition bnd ::
  "('a, 's) outcome \<Rightarrow> ('a \<Rightarrow> 's \<Rightarrow> ('b, 's) outcome) \<Rightarrow> ('b, 's) outcome" where
  "bnd m f =
     (case m of
        None \<Rightarrow> None
      | Some (r, s) \<Rightarrow> (case r of Inl e \<Rightarrow> Some (Inl e, s) | Inr a \<Rightarrow> f a s))"

fun forEach :: "('x \<Rightarrow> 's \<Rightarrow> (unit, 's) outcome) \<Rightarrow> 'x list \<Rightarrow> 's \<Rightarrow> (unit, 's) outcome" where
  "forEach f [] s = Some (Inr (), s)"
| "forEach f (x # xs) s = bnd (f x s) (\<lambda>u s'. forEach f xs s')"

text \<open>\<^verbatim>\<open>[].map.call(args, f)\<close> where \<open>f\<close> may throw: the first throw ends the map.\<close>

fun mapE :: "('x \<Rightarrow> (err + 'y) option) \<Rightarrow> 'x list \<Rightarrow> (err + 'y list) option" where
  "mapE f [] = Some (Inr [])"
| "mapE f (x # xs) =
     (case f x of
        None \<Rightarrow> None
      | Some (Inl e) \<Rightarrow> Some (Inl e)
      | Some (Inr y) \<Rightarrow>
          (case mapE f xs of
             None \<Rightarrow> None
           | Some (Inl e) \<Rightarrow> Some (Inl e)
           | Some (Inr ys) \<Rightarrow> Some (Inr (y # ys))))"

section \<open>Objects as association lists\<close>

fun assign :: "string \<Rightarrow> 'v \<Rightarrow> (string \<times> 'v) list \<Rightarrow> (string \<times> 'v) list" where
  "assign k v [] = [(k, v)]"
| "assign k v ((k', v') # kvs) =
     (if k' = k then (k, v) # kvs else (k', v') # assign k v kvs)"

definition readObj :: "(string \<times> sval) list \<Rightarrow> string \<Rightarrow> sval" where
  "readObj obj k = (case map_of obj k of None \<Rightarrow> Plain Undefined | Some v \<Rightarrow> v)"

text \<open>A property key that is \<^verbatim>\<open>undefined\<close> is the string \<^verbatim>\<open>"undefined"\<close>.\<close>

definition keyOf :: "string option \<Rightarrow> string" where
  "keyOf k = (case k of None \<Rightarrow> ''undefined'' | Some s \<Rightarrow> s)"

definition lookupField :: "props list \<Rightarrow> string \<Rightarrow> props option" where
  "lookupField schema k = find (\<lambda>p. name (attrs p) = Some k) schema"

fun string_of_nat :: "nat \<Rightarrow> string" where
  "string_of_nat n =
     (if n < 10 then [''0123456789'' ! n]
      else string_of_nat (n div 10) @ [''0123456789'' ! (n mod 10)])"

text \<open>
  The enumerable own properties a \<^verbatim>\<open>for ... in\<close> loop visits, with their values (an
  object's keys in the order of the list).
\<close>

fun ownProps :: "jsval \<Rightarrow> (string \<times> jsval) list" where
  "ownProps (Obj kvs) = kvs"
| "ownProps (Arr xs) = zip (map string_of_nat [0..<length xs]) xs"
| "ownProps (Str s) = zip (map string_of_nat [0..<length s]) (map (\<lambda>c. Str [c]) s)"
| "ownProps _ = []"

text \<open>\<^verbatim>\<open>_.toArray\<close> on an object, and \<^verbatim>\<open>_.size\<close>.\<close>

fun toArray_lodash :: "jsval \<Rightarrow> jsval" where
  "toArray_lodash (Arr xs) = Arr xs"
| "toArray_lodash (Obj kvs) = Arr (map snd kvs)"
| "toArray_lodash _ = Arr []"

fun size_lodash :: "jsval \<Rightarrow> nat" where
  "size_lodash (Arr xs) = length xs"
| "size_lodash (Obj kvs) = length kvs"
| "size_lodash (Str s) = length s"
| "size_lodash _ = 0"

text \<open>
  \<^verbatim>\<open>_.difference(values, existing)\<close> compares with SameValueZero: primitives by value,
  objects by reference (a value just cast is never a reference already in the array).
\<close>

fun sameValueZero :: "sval \<Rightarrow> sval \<Rightarrow> bool" where
  "sameValueZero (Plain a) (Plain b) = (\<not> isObject a \<and> a = b)"
| "sameValueZero _ _ = False"

definition difference :: "sval list \<Rightarrow> sval list \<Rightarrow> sval list" where
  "difference values existing =
     filter (\<lambda>v. \<not> list_ex (\<lambda>x. sameValueZero v x) existing) values"

definition getter :: "attrs \<Rightarrow> sval \<Rightarrow> err + sval" where
  "getter p v = (case getter_hook p of None \<Rightarrow> Inr v | Some g \<Rightarrow> g v)"

definition hasDefault :: "attrs \<Rightarrow> bool" where
  "hasDefault p =
     (case default_v p of
        None \<Rightarrow> False
      | Some (DefaultValue v) \<Rightarrow> v \<noteq> Undefined
      | Some (DefaultFn f) \<Rightarrow> True)"

definition defaultOf :: "attrs \<Rightarrow> (string \<times> sval) list \<Rightarrow> jsval" where
  "defaultOf p obj =
     (case default_v p of
        None \<Rightarrow> Undefined
      | Some (DefaultValue v) \<Rightarrow> v
      | Some (DefaultFn f) \<Rightarrow> f obj)"

definition vetoed :: "options \<Rightarrow> sval \<Rightarrow> string option \<Rightarrow> bool" where
  "vetoed opts v k =
     (case onBeforeValueSet opts of None \<Rightarrow> False | Some h \<Rightarrow> h v k = Bool False)"

text \<open>
  The library changes a \<^verbatim>\<open>SchemaArray\<close> or a nested instance in place, through the
  reference a read of the field returned. In the model the changed object is stored back
  under the key it was read from. A getter hook is taken to return a value of its own,
  not the stored object: past a hook nothing is stored back.
\<close>

definition storeBack :: "attrs \<Rightarrow> string \<Rightarrow> sval \<Rightarrow> istate \<Rightarrow> istate" where
  "storeBack p k v st =
     (case getter_hook p of None \<Rightarrow> (assign k v (fst st), snd st) | Some g \<Rightarrow> st)"

definition readOnlyOff :: "factory \<Rightarrow> props \<Rightarrow> factory" where
  "readOnlyOff F p =
     Factory (fopts F)
       (map (\<lambda>q. if name (attrs q) = name (attrs p)
                 then Props ((attrs q)\<lparr>readOnly := False\<rparr>) (arrayType q) (objectType q)
                 else q) (fschema F))"

section \<open>The typecast engine and the property interceptors\<close>

text \<open>
  The functions of the library that call each other are written in two layers. The body
  of each is a definition that takes the functions it calls as arguments, in the order of
  the source text; the recursive functions proper then tie the bodies together, each call
  one level deeper.
\<close>

text \<open>\<^verbatim>\<open>typecast(value, originalValue, properties)\<close>. The state is \<open>orig\<close>, which the array and object cases change in place.\<close>

definition typecast_body ::
  "(props \<Rightarrow> jsval list \<Rightarrow> sval list \<Rightarrow> (nat, sval list) outcome) \<Rightarrow>
   (factory \<Rightarrow> jsval \<Rightarrow> (unit, istate) outcome) \<Rightarrow>
   (factory \<Rightarrow> istate \<Rightarrow> (unit, istate) outcome) \<Rightarrow>
   (factory \<Rightarrow> jsval \<Rightarrow> istate \<Rightarrow> (unit, istate) outcome) \<Rightarrow>
   runtime \<Rightarrow> options \<Rightarrow> jsval \<Rightarrow> sval \<Rightarrow> props \<Rightarrow> (sval, sval) outcome" where
  "typecast_body push' construct' clear' populate' rt opts value0 orig p =
     (case applyHook (transform (attrs p)) value0 orig of
        Inl e \<Rightarrow> Some (Inl e, orig)
      | Inr v \<Rightarrow>
          if v = Null \<and> preserveNull opts then Some (Inr (Plain Null), orig)
          else
            (case type_tag (attrs p) of
               TString \<Rightarrow> Some (map_sum id Plain (typecast_string rt (attrs p) v orig), orig)
             | TNumber \<Rightarrow> Some (map_sum id Plain (typecast_number rt opts (attrs p) v orig), orig)
             | TBoolean \<Rightarrow> Some (map_sum id Plain (typecast_boolean rt (attrs p) v orig), orig)
             | TDate \<Rightarrow> Some (map_sum id Plain (typecast_date rt (attrs p) v orig), orig)
             | TArray \<Rightarrow>
                 (case (if isObject v then toArray_lodash v else v) of
                    Arr xs \<Rightarrow>
                      (case orig of
                         SchemaArray ys \<Rightarrow>
                           (case forEach (\<lambda>x zs. bnd (push' p [x] zs)
                                                  (\<lambda>len zs'. Some (Inr (), zs'))) xs [] of
                              None \<Rightarrow> None
                            | Some (Inl e, zs) \<Rightarrow> Some (Inl e, SchemaArray zs)
                            | Some (Inr u, zs) \<Rightarrow> Some (Inr (SchemaArray zs), SchemaArray zs))
                       | Plain (Arr ys) \<Rightarrow> Some (Inr (Plain (Arr xs)), Plain (Arr xs))
                       | Plain (Obj kvs) \<Rightarrow>
                           (let cleared = Plain (Obj (assign ''length'' (Num (Fin 0)) kvs)) in
                            if xs = [] then Some (Inr cleared, cleared)
                            else Some (Inl nativeTypeError, cleared))
                       | Plain (DateV t) \<Rightarrow>
                           (if xs = [] then Some (Inr orig, orig) else Some (Inl nativeTypeError, orig))
                       | Plain (RegExpV src tst) \<Rightarrow>
                           (if xs = [] then Some (Inr orig, orig) else Some (Inl nativeTypeError, orig))
                       | Instance ob es \<Rightarrow>
                           (if xs = [] then Some (Inr orig, orig) else Some (Inl nativeTypeError, orig))
                       | _ \<Rightarrow> Some (Inl nativeTypeError, orig))
                  | _ \<Rightarrow> Some (Inl (mkError ArrayCastError Undefined v orig (attrs p)), orig))
             | TObject \<Rightarrow>
                 (if \<not> isObject v
                  then Some (Inl (mkError ObjectCastError Undefined v orig (attrs p)), orig)
                  else
                    (case objectType p of
                       None \<Rightarrow> Some (Inr (Plain v), orig)
                     | Some F' \<Rightarrow>
                         (case orig of
                            Plain Undefined \<Rightarrow>
                              (case bnd (construct' F' (Obj [])) (\<lambda>u st. populate' F' v st) of
                                 None \<Rightarrow> None
                               | Some (Inl e, st) \<Rightarrow> Some (Inl e, orig)
                               | Some (Inr u, st) \<Rightarrow> Some (Inr (Instance (fst st) (snd st)), orig))
                          | Instance ob es \<Rightarrow>
                              (case bnd (clear' F' (ob, es)) (\<lambda>u st. populate' F' v st) of
                                 None \<Rightarrow> None
                               | Some (Inl e, st) \<Rightarrow> Some (Inl e, Instance (fst st) (snd st))
                               | Some (Inr u, st) \<Rightarrow>
                                   Some (Inr (Instance (fst st) (snd st)), Instance (fst st) (snd st)))
                          | _ \<Rightarrow> Some (Inl nativeTypeError, orig))))
             | _ \<Rightarrow> Some (Inr (Plain v), orig)))"

text \<open>\<^verbatim>\<open>SchemaArray.push(...args)\<close>; the state is the content of the array.\<close>

definition push_body ::
  "(jsval \<Rightarrow> sval \<Rightarrow> props \<Rightarrow> (sval, sval) outcome) \<Rightarrow>
   props \<Rightarrow> jsval list \<Rightarrow> sval list \<Rightarrow> (nat, sval list) outcome" where
  "push_body typecast' p args xs =
     (case (case arrayType p of
              None \<Rightarrow> Some (Inr (map Plain args))
            | Some t \<Rightarrow>
                mapE (\<lambda>v. case typecast' v (Plain Undefined) t of
                             None \<Rightarrow> None
                           | Some (r, orig') \<Rightarrow> Some r) args) of
        None \<Rightarrow> None
      | Some (Inl e) \<Rightarrow> Some (Inl e, xs)
      | Some (Inr values) \<Rightarrow>
          (let values1 = (case filter_p (attrs p) of None \<Rightarrow> values | Some f \<Rightarrow> filter f values);
               values2 = (if unique (attrs p) then difference values1 xs else values1)
           in Some (Inr (length (xs @ values2)), xs @ values2)))"

text \<open>The getter that \<^verbatim>\<open>defineGetter(index, properties)\<close> installs, called on key \<open>k\<close>.\<close>

definition defineGetter_body ::
  "(factory \<Rightarrow> sval \<Rightarrow> props \<Rightarrow> istate \<Rightarrow> (unit, istate) outcome) \<Rightarrow>
   (factory \<Rightarrow> jsval \<Rightarrow> (unit, istate) outcome) \<Rightarrow>
   factory \<Rightarrow> string \<Rightarrow> istate \<Rightarrow> (sval, istate) outcome" where
  "defineGetter_body writeValue' construct' F k st =
     (case lookupField (fschema F) k of
        None \<Rightarrow> Some (Inr (Plain Undefined), st)
      | Some p \<Rightarrow>
          (let indexOrAliasIndex =
                 (if type_tag (attrs p) = TAlias then keyOf (index (attrs p)) else k)
           in
           bnd (if \<not> truthy_s (readObj (fst st) indexOrAliasIndex) \<and>
                   (type_tag (attrs p) = TObject \<or> type_tag (attrs p) = TArray)
                then
                  (if type_tag (attrs p) = TObject then
                     (if hasDefault (attrs p)
                      then writeValue' F (Plain (defaultOf (attrs p) (fst st))) p st
                      else
                        (case objectType p of
                           Some F' \<Rightarrow>
                             (case construct' F' (Obj []) of
                                None \<Rightarrow> None
                              | Some (Inl e, sub) \<Rightarrow> Some (Inl e, st)
                              | Some (Inr u, sub) \<Rightarrow>
                                  writeValue' F (Instance (fst sub) (snd sub)) p st)
                         | None \<Rightarrow> writeValue' F (Plain (Obj [])) p st))
                   else writeValue' F (SchemaArray []) p st)
                else Some (Inr (), st))
             (\<lambda>u st1.
                case getter (attrs p) (readObj (fst st1) indexOrAliasIndex) of
                  Inl e \<Rightarrow> Some (Inr (Plain Undefined), (fst st1, snd st1 @ [e]))
                | Inr v \<Rightarrow> Some (Inr v, st1))))"

text \<open>The setter that \<^verbatim>\<open>defineSetter(index, properties)\<close> installs, called on key \<open>k\<close>.\<close>

definition defineSetter_body ::
  "(factory \<Rightarrow> string \<Rightarrow> istate \<Rightarrow> (sval, istate) outcome) \<Rightarrow>
   (options \<Rightarrow> jsval \<Rightarrow> sval \<Rightarrow> props \<Rightarrow> (sval, sval) outcome) \<Rightarrow>
   (factory \<Rightarrow> sval \<Rightarrow> props \<Rightarrow> istate \<Rightarrow> (unit, istate) outcome) \<Rightarrow>
   factory \<Rightarrow> string \<Rightarrow> jsval \<Rightarrow> istate \<Rightarrow> (unit, istate) outcome" where
  "defineSetter_body defineGetter' typecast' writeValue' F k v st =
     (case lookupField (fschema F) k of
        None \<Rightarrow> Some (Inr (), st)
      | Some p \<Rightarrow>
          if readOnly (attrs p) then Some (Inr (), st)
          else
            (case bnd (defineGetter' F k st)
                    (\<lambda>orig st1.
                       case typecast' (fopts F) v orig p of
                         None \<Rightarrow> None
                       | Some (r, orig') \<Rightarrow>
                           (let st2 = (if type_tag (attrs p) = TArray \<or> type_tag (attrs p) = TObject
                                       then storeBack (attrs p) k orig' st1 else st1)
                            in case r of
                                 Inl e \<Rightarrow> Some (Inl e, st2)
                               | Inr w \<Rightarrow> writeValue' F w p st2)) of
               None \<Rightarrow> None
             | Some (Inl e, st') \<Rightarrow> Some (Inr (), (fst st', snd st' @ [e]))
             | Some (Inr u, st') \<Rightarrow> Some (Inr (), st')))"

text \<open>\<^verbatim>\<open>writeValue(value, fieldSchema)\<close>.\<close>

definition writeValue_body ::
  "(factory \<Rightarrow> string \<Rightarrow> jsval \<Rightarrow> istate \<Rightarrow> (unit, istate) outcome) \<Rightarrow>
   factory \<Rightarrow> sval \<Rightarrow> props \<Rightarrow> istate \<Rightarrow> (unit, istate) outcome" where
  "writeValue_body defineSetter' F v p st =
     (if vetoed (fopts F) v (name (attrs p)) then Some (Inr (), st)
      else if type_tag (attrs p) = TAlias then
        (case v of
           Plain w \<Rightarrow> defineSetter' F (keyOf (index (attrs p))) w st
         | _ \<Rightarrow> Some (Inr (), st))
      else Some (Inr (), (assign (keyOf (name (attrs p))) v (fst st), snd st)))"

text \<open>\<^verbatim>\<open>clearField(index, properties)\<close> and \<^verbatim>\<open>clear()\<close>.\<close>

definition clearField_body ::
  "(factory \<Rightarrow> string \<Rightarrow> istate \<Rightarrow> (sval, istate) outcome) \<Rightarrow>
   (factory \<Rightarrow> istate \<Rightarrow> (unit, istate) outcome) \<Rightarrow>
   (factory \<Rightarrow> sval \<Rightarrow> props \<Rightarrow> istate \<Rightarrow> (unit, istate) outcome) \<Rightarrow>
   factory \<Rightarrow> props \<Rightarrow> istate \<Rightarrow> (unit, istate) outcome" where
  "clearField_body defineGetter' clear' writeValue' F p st =
     (if isAlias (attrs p) then Some (Inr (), st)
      else if type_tag (attrs p) = TObject then
        bnd (defineGetter' F (keyOf (name (attrs p))) st)
          (\<lambda>v st1.
             case v of
               Instance ob es \<Rightarrow>
                 (case objectType p of
                    Some F' \<Rightarrow>
                      (case clear' F' (ob, es) of
                         None \<Rightarrow> None
                       | Some (r, sub) \<Rightarrow>
                           Some (r, storeBack (attrs p) (keyOf (name (attrs p)))
                                      (Instance (fst sub) (snd sub)) st1))
                  | None \<Rightarrow> Some (Inl nativeTypeError, st1))
             | _ \<Rightarrow> Some (Inl nativeTypeError, st1))
      else if type_tag (attrs p) = TArray then
        bnd (defineGetter' F (keyOf (name (attrs p))) st)
          (\<lambda>v st1.
             case v of
               SchemaArray xs \<Rightarrow>
                 Some (Inr (), storeBack (attrs p) (keyOf (name (attrs p))) (SchemaArray []) st1)
             | Plain (Arr xs) \<Rightarrow>
                 Some (Inr (), storeBack (attrs p) (keyOf (name (attrs p))) (Plain (Arr [])) st1)
             | Plain (Obj kvs) \<Rightarrow>
                 Some (Inr (), storeBack (attrs p) (keyOf (name (attrs p)))
                                 (Plain (Obj (assign ''length'' (Num (Fin 0)) kvs))) st1)
             | Plain (DateV t) \<Rightarrow> Some (Inr (), st1)
             | Plain (RegExpV src tst) \<Rightarrow> Some (Inr (), st1)
             | Instance ob es \<Rightarrow> Some (Inr (), st1)
             | _ \<Rightarrow> Some (Inl nativeTypeError, st1))
      else writeValue' F (Plain Undefined) p st)"

text \<open>
  The constructor of \<^verbatim>\<open>SchemaObjectInstance\<close> on a compiled schema: the defaults,
  each assigned with \<^verbatim>\<open>readOnly\<close> switched off, then the default constructor, which
  populates the values given.
\<close>

definition construct_body ::
  "(factory \<Rightarrow> string \<Rightarrow> jsval \<Rightarrow> istate \<Rightarrow> (unit, istate) outcome) \<Rightarrow>
   (factory \<Rightarrow> jsval \<Rightarrow> istate \<Rightarrow> (unit, istate) outcome) \<Rightarrow>
   factory \<Rightarrow> jsval \<Rightarrow> (unit, istate) outcome" where
  "construct_body defineSetter' populate' F values =
     bnd (forEach (\<lambda>p s. if hasDefault (attrs p)
                          then defineSetter' (readOnlyOff F p) (keyOf (name (attrs p)))
                                 (defaultOf (attrs p) (fst s)) s
                          else Some (Inr (), s)) (fschema F) ([], []))
       (\<lambda>u s. populate' F values s)"


text \<open>
  \<^verbatim>\<open>clear()\<close> and \<^verbatim>\<open>populate(values)\<close> are loops over the schema and over the
  keys of the values.
\<close>

definition clear_body ::
  "(factory \<Rightarrow> props \<Rightarrow> istate \<Rightarrow> (unit, istate) outcome) \<Rightarrow>
   factory \<Rightarrow> istate \<Rightarrow> (unit, istate) outcome" where
  "clear_body clearField' F st = forEach (\<lambda>p s. clearField' F p s) (fschema F) st"

definition populate_body ::
  "(factory \<Rightarrow> string \<Rightarrow> jsval \<Rightarrow> istate \<Rightarrow> (unit, istate) outcome) \<Rightarrow>
   factory \<Rightarrow> jsval \<Rightarrow> istate \<Rightarrow> (unit, istate) outcome" where
  "populate_body defineSetter' F values st =
     forEach (\<lambda>kv s. defineSetter' F (fst kv) (snd kv) s) (ownProps values) st"

text \<open>The functions at call depth \<open>n\<close>, as a table: at depth 0 every call gives up.\<close>

record interp =
  i_typecast :: "runtime \<Rightarrow> options \<Rightarrow> jsval \<Rightarrow> sval \<Rightarrow> props \<Rightarrow> (sval, sval) outcome"
  i_push :: "runtime \<Rightarrow> options \<Rightarrow> props \<Rightarrow> jsval list \<Rightarrow> sval list \<Rightarrow> (nat, sval list) outcome"
  i_defineGetter :: "runtime \<Rightarrow> factory \<Rightarrow> string \<Rightarrow> istate \<Rightarrow> (sval, istate) outcome"
  i_defineSetter :: "runtime \<Rightarrow> factory \<Rightarrow> string \<Rightarrow> jsval \<Rightarrow> istate \<Rightarrow> (unit, istate) outcome"
  i_writeValue :: "runtime \<Rightarrow> factory \<Rightarrow> sval \<Rightarrow> props \<Rightarrow> istate \<Rightarrow> (unit, istate) outcome"
  i_clearField :: "runtime \<Rightarrow> factory \<Rightarrow> props \<Rightarrow> istate \<Rightarrow> (unit, istate) outcome"
  i_clear :: "runtime \<Rightarrow> factory \<Rightarrow> istate \<Rightarrow> (unit, istate) outcome"
  i_construct :: "runtime \<Rightarrow> factory \<Rightarrow> jsval \<Rightarrow> (unit, istate) outcome"
  i_populate :: "runtime \<Rightarrow> factory \<Rightarrow> jsval \<Rightarrow> istate \<Rightarrow> (unit, istate) outcome"

primrec level :: "nat \<Rightarrow> interp" where
  "level 0 =
     \<lparr>i_typecast = (\<lambda>rt opts v orig p. None),
      i_push = (\<lambda>rt opts p args xs. None),
      i_defineGetter = (\<lambda>rt F k st. None),
      i_defineSetter = (\<lambda>rt F k v st. None),
      i_writeValue = (\<lambda>rt F v p st. None),
      i_clearField = (\<lambda>rt F p st. None),
      i_clear = (\<lambda>rt F st. None),
      i_construct = (\<lambda>rt F values. None),
      i_populate = (\<lambda>rt F values st. None)\<rparr>"
| "level (Suc n) =
     \<lparr>i_typecast = (\<lambda>rt opts. typecast_body (i_push (level n) rt opts)
                       (i_construct (level n) rt) (i_clear (level n) rt)
                       (i_populate (level n) rt) rt opts),
      i_push = (\<lambda>rt opts. push_body (i_typecast (level n) rt opts)),
      i_defineGetter = (\<lambda>rt. defineGetter_body (i_writeValue (level n) rt)
                           (i_construct (level n) rt)),
      i_defineSetter = (\<lambda>rt. defineSetter_body (i_defineGetter (level n) rt)
                           (i_typecast (level n) rt) (i_writeValue (level n) rt)),
      i_writeValue = (\<lambda>rt. writeValue_body (i_defineSetter (level n) rt)),
      i_clearField = (\<lambda>rt. clearField_body (i_defineGetter (level n) rt)
                         (i_clear (level n) rt) (i_writeValue (level n) rt)),
      i_clear = (\<lambda>rt. clear_body (i_clearField (level n) rt)),
      i_construct = (\<lambda>rt. construct_body (i_defineSetter (level n) rt)
                        (i_populate (level n) rt)),
      i_populate = (\<lambda>rt. populate_body (i_defineSetter (level n) rt))\<rparr>"

definition typecast ::
  "nat \<Rightarrow> runtime \<Rightarrow> options \<Rightarrow> jsval \<Rightarrow> sval \<Rightarrow> props \<Rightarrow> (sval, sval) outcome" where
  "typecast n = i_typecast (level n)"

definition push ::
  "nat \<Rightarrow> runtime \<Rightarrow> options \<Rightarrow> props \<Rightarrow> jsval list \<Rightarrow> sval list \<Rightarrow> (nat, sval list) outcome" where
  "push n = i_push (level n)"

definition defineGetter ::
  "nat \<Rightarrow> runtime \<Rightarrow> factory \<Rightarrow> string \<Rightarrow> istate \<Rightarrow> (sval, istate) outcome" where
  "defineGetter n = i_defineGetter (level n)"

definition defineSetter ::
  "nat \<Rightarrow> runtime \<Rightarrow> factory \<Rightarrow> string \<Rightarrow> jsval \<Rightarrow> istate \<Rightarrow> (unit, istate) outcome" where
  "defineSetter n = i_defineSetter (level n)"

definition writeValue ::
  "nat \<Rightarrow> runtime \<Rightarrow> factory \<Rightarrow> sval \<Rightarrow> props \<Rightarrow> istate \<Rightarrow> (unit, istate) outcome" where
  "writeValue n = i_writeValue (level n)"

definition clearField ::
  "nat \<Rightarrow> runtime \<Rightarrow> factory \<Rightarrow> props \<Rightarrow> istate \<Rightarrow> (unit, istate) outcome" where
  "clearField n = i_clearField (level n)"

definition clear :: "nat \<Rightarrow> runtime \<Rightarrow> factory \<Rightarrow> istate \<Rightarrow> (unit, istate) outcome" where
  "clear n = i_clear (level n)"

definition construct :: "nat \<Rightarrow> runtime \<Rightarrow> factory \<Rightarrow> jsval \<Rightarrow> (unit, istate) outcome" where
  "construct n = i_construct (level n)"

definition populate ::
  "nat \<Rightarrow> runtime \<Rightarrow> factory \<Rightarrow> jsval \<Rightarrow> istate \<Rightarrow> (unit, istate) outcome" where
  "populate n = i_populate (level n)"

lemmas interp_defs =
  typecast_def push_def defineGetter_def defineSetter_def writeValue_def clearField_def
  clear_def construct_def populate_def

lemma typecast_Suc:
  "typecast (Suc n) rt opts v orig p =
     typecast_body (push n rt opts) (construct n rt) (clear n rt) (populate n rt) rt opts v orig p"
  by (simp add: interp_defs)

lemma push_Suc: "push (Suc n) rt opts p args xs = push_body (typecast n rt opts) p args xs"
  by (simp add: interp_defs)

lemma defineGetter_Suc:
  "defineGetter (Suc n) rt F k st = defineGetter_body (writeValue n rt) (construct n rt) F k st"
  by (simp add: interp_defs)

lemma defineSetter_Suc:
  "defineSetter (Suc n) rt F k v st =
     defineSetter_body (defineGetter n rt) (typecast n rt) (writeValue n rt) F k v st"
  by (simp add: interp_defs)

lemma writeValue_Suc:
  "writeValue (Suc n) rt F v p st = writeValue_body (defineSetter n rt) F v p st"
  by (simp add: interp_defs)

lemma clearField_Suc:
  "clearField (Suc n) rt F p st =
     clearField_body (defineGetter n rt) (clear n rt) (writeValue n rt) F p st"
  by (simp add: interp_defs)

lemma clear_Suc: "clear (Suc n) rt F st = clear_body (clearField n rt) F st"
  by (simp add: interp_defs)

lemma construct_Suc:
  "construct (Suc n) rt F values = construct_body (defineSetter n rt) (populate n rt) F values"
  by (simp add: interp_defs)

lemma populate_Suc:
  "populate (Suc n) rt F values st = populate_body (defineSetter n rt) F values st"
  by (simp add: interp_defs)

lemma interp_0:
  "typecast 0 rt opts v orig p = None" "push 0 rt opts p args xs = None"
  "defineGetter 0 rt F k st = None" "defineSetter 0 rt F k v st = None"
  "writeValue 0 rt F sv p st = None" "clearField 0 rt F p st = None"
  "clear 0 rt F st = None" "construct 0 rt F values = None" "populate 0 rt F values st = None"
  by (simp_all add: interp_defs)

section \<open>Serialization and error retrieval\<close>

text \<open>
  An instance and the elements of a \<^verbatim>\<open>SchemaArray\<close> carry their class in JavaScript.
  In the model the factory of a stored instance is read from the descriptor it is stored
  under: the field's own, or the target's for an alias.
\<close>

definition ownerProps :: "factory \<Rightarrow> props \<Rightarrow> props option" where
  "ownerProps F p =
     (if type_tag (attrs p) = TAlias then lookupField (fschema F) (keyOf (index (attrs p)))
      else Some p)"

definition fieldFactory :: "factory \<Rightarrow> props \<Rightarrow> factory option" where
  "fieldFactory F p = (case ownerProps F p of None \<Rightarrow> None | Some q \<Rightarrow> objectType q)"

definition elemFactory :: "factory \<Rightarrow> props \<Rightarrow> factory option" where
  "elemFactory F p =
     (case ownerProps F p of
        None \<Rightarrow> None
      | Some q \<Rightarrow> (case arrayType q of None \<Rightarrow> None | Some t \<Rightarrow> objectType t))"

fun mapS :: "('x \<Rightarrow> ('y, 'x) outcome) \<Rightarrow> 'x list \<Rightarrow> ('y list, 'x list) outcome" where
  "mapS f [] = Some (Inr [], [])"
| "mapS f (x # xs) =
     (case f x of
        None \<Rightarrow> None
      | Some (Inl e, x') \<Rightarrow> Some (Inl e, x' # xs)
      | Some (Inr y, x') \<Rightarrow>
          (case mapS f xs of
             None \<Rightarrow> None
           | Some (Inl e, xs') \<Rightarrow> Some (Inl e, x' # xs')
           | Some (Inr ys, xs') \<Rightarrow> Some (Inr (y # ys), x' # xs')))"

text \<open>
  \<^verbatim>\<open>SchemaArray.toArray()\<close>. An element with a \<^verbatim>\<open>toObject\<close> method is a nested
  instance; a wrapper is never an element (casting an element of array type throws, since
  there is no original wrapper to fill).
\<close>

definition toArray_body ::
  "(factory \<Rightarrow> istate \<Rightarrow> (jsval, istate) outcome) \<Rightarrow>
   factory option \<Rightarrow> sval list \<Rightarrow> (jsval, sval list) outcome" where
  "toArray_body toObject' F' xs =
     (case mapS (\<lambda>element.
                   case element of
                     Instance ob es \<Rightarrow>
                       (case F' of
                          Some G \<Rightarrow>
                            (case toObject' G (ob, es) of
                               None \<Rightarrow> None
                             | Some (r, sub) \<Rightarrow> Some (r, Instance (fst sub) (snd sub)))
                        | None \<Rightarrow> Some (Inl nativeTypeError, element))
                   | SchemaArray ys \<Rightarrow> Some (Inl nativeTypeError, element)
                   | Plain v \<Rightarrow> Some (Inr v, element)) xs of
        None \<Rightarrow> None
      | Some (Inl e, xs') \<Rightarrow> Some (Inl e, xs')
      | Some (Inr ys, xs') \<Rightarrow> Some (Inr (Arr ys), xs'))"

text \<open>
  One round of the loop of \<^verbatim>\<open>toObject()\<close>; the state is the object under
  construction and the instance. \<^verbatim>\<open>value.splice(0)\<close> empties a stored plain array.
\<close>

definition writeUnlessEmpty ::
  "options \<Rightarrow> string \<Rightarrow> jsval \<Rightarrow> (string \<times> jsval) list \<Rightarrow> (string \<times> jsval) list" where
  "writeUnlessEmpty opts k v getObj =
     (if \<not> setUndefined opts \<and> size_lodash v = 0 then getObj else assign k v getObj)"

definition toObject_field ::
  "(factory \<Rightarrow> string \<Rightarrow> istate \<Rightarrow> (sval, istate) outcome) \<Rightarrow>
   (factory \<Rightarrow> istate \<Rightarrow> (jsval, istate) outcome) \<Rightarrow>
   (factory option \<Rightarrow> sval list \<Rightarrow> (jsval, sval list) outcome) \<Rightarrow>
   factory \<Rightarrow> props \<Rightarrow> (string \<times> jsval) list \<times> istate \<Rightarrow>
   (unit, (string \<times> jsval) list \<times> istate) outcome" where
  "toObject_field defineGetter' toObject' toArray' F p gs =
     (let getObj = fst gs; st = snd gs; k = keyOf (name (attrs p));
          indexOrAliasIndex = (if type_tag (attrs p) = TAlias then keyOf (index (attrs p)) else k)
      in
      if invisible (attrs p) then Some (Inr (), gs)
      else
        (case defineGetter' F k st of
           None \<Rightarrow> None
         | Some (Inl e, st1) \<Rightarrow> Some (Inl e, (getObj, st1))
         | Some (Inr v, st1) \<Rightarrow>
             if v = Plain Undefined \<and> \<not> setUndefined (fopts F) then Some (Inr (), (getObj, st1))
             else
               (case v of
                  Instance ob es \<Rightarrow>
                    (case fieldFactory F p of
                       Some F' \<Rightarrow>
                         (case toObject' F' (ob, es) of
                            None \<Rightarrow> None
                          | Some (Inl e, sub) \<Rightarrow>
                              Some (Inl e, (getObj, storeBack (attrs p) indexOrAliasIndex
                                                      (Instance (fst sub) (snd sub)) st1))
                          | Some (Inr w, sub) \<Rightarrow>
                              Some (Inr (), (writeUnlessEmpty (fopts F) k w getObj,
                                             storeBack (attrs p) indexOrAliasIndex
                                               (Instance (fst sub) (snd sub)) st1)))
                     | None \<Rightarrow> Some (Inl nativeTypeError, (getObj, st1)))
                | SchemaArray xs \<Rightarrow>
                    (case toArray' (elemFactory F p) xs of
                       None \<Rightarrow> None
                     | Some (Inl e, xs') \<Rightarrow>
                         Some (Inl e, (getObj, storeBack (attrs p) indexOrAliasIndex
                                                 (SchemaArray xs') st1))
                     | Some (Inr w, xs') \<Rightarrow>
                         Some (Inr (), (writeUnlessEmpty (fopts F) k w getObj,
                                        storeBack (attrs p) indexOrAliasIndex (SchemaArray xs') st1)))
                | Plain (Arr xs) \<Rightarrow>
                    Some (Inr (), (writeUnlessEmpty (fopts F) k (Arr xs) getObj,
                                   storeBack (attrs p) indexOrAliasIndex (Plain (Arr [])) st1))
                | Plain (DateV t) \<Rightarrow> Some (Inr (), (assign k (DateV t) getObj, st1))
                | Plain (Obj kvs) \<Rightarrow>
                    Some (Inr (), (writeUnlessEmpty (fopts F) k (Obj kvs) getObj, st1))
                | Plain (RegExpV src tst) \<Rightarrow>
                    Some (Inr (), (writeUnlessEmpty (fopts F) k (RegExpV src tst) getObj, st1))
                | Plain w \<Rightarrow> Some (Inr (), (assign k w getObj, st1)))))"

text \<open>\<^verbatim>\<open>toObject()\<close>.\<close>

definition toObject_body ::
  "(factory \<Rightarrow> string \<Rightarrow> istate \<Rightarrow> (sval, istate) outcome) \<Rightarrow>
   (factory \<Rightarrow> istate \<Rightarrow> (jsval, istate) outcome) \<Rightarrow>
   (factory option \<Rightarrow> sval list \<Rightarrow> (jsval, sval list) outcome) \<Rightarrow>
   factory \<Rightarrow> istate \<Rightarrow> (jsval, istate) outcome" where
  "toObject_body defineGetter' toObject' toArray' F st =
     (case forEach (toObject_field defineGetter' toObject' toArray' F) (fschema F) ([], st) of
        None \<Rightarrow> None
      | Some (Inl e, gs) \<Rightarrow> Some (Inl e, snd gs)
      | Some (Inr u, gs) \<Rightarrow>
          (case toObject_hook (fopts F) of
             None \<Rightarrow> Some (Inr (Obj (fst gs)), snd gs)
           | Some h \<Rightarrow> Some (Inr (h (Obj (fst gs))), snd gs)))"

text \<open>
  \<^verbatim>\<open>getErrors()\<close>: the pending errors, then one round per field for the required
  check, then the errors of the nested instances, their field names prefixed. Every
  \<^verbatim>\<open>this[index]\<close> is a read through the getter. The state of a round is the list of
  errors collected and the instance.

  The pending errors are returned as deep copies, descriptor included. The errors made by
  the required check are not: their \<^verbatim>\<open>fieldSchema\<close> is the descriptor object of the
  compiled schema itself. The result of \<^verbatim>\<open>getErrors()\<close> is therefore modelled as the
  list of errors together with a flag that says whether the required check made any.
\<close>

definition requiredMessage :: "string \<Rightarrow> string" where
  "requiredMessage k = k @ '' is required but not provided''"

definition getErrors_required ::
  "(factory \<Rightarrow> string \<Rightarrow> istate \<Rightarrow> (sval, istate) outcome) \<Rightarrow>
   factory \<Rightarrow> props \<Rightarrow> err list \<times> istate \<Rightarrow> (unit, err list \<times> istate) outcome" where
  "getErrors_required defineGetter' F p es =
     (let errors = fst es; st = snd es; k = keyOf (name (attrs p)) in
      case required (attrs p) of
        None \<Rightarrow> Some (Inr (), es)
      | Some r \<Rightarrow>
          (let message = (case r of
                            Required c \<Rightarrow> Str (requiredMessage k)
                          | RequiredPair c m \<Rightarrow> (if truthy m then m else Str (requiredMessage k)));
               cond = (case r of Required c \<Rightarrow> c | RequiredPair c m \<Rightarrow> c)
           in
           if \<not> (case cond of ReqValue v \<Rightarrow> truthy v | ReqFn f \<Rightarrow> truthy (f (fst st)))
           then Some (Inr (), es)
           else
             (case bnd (defineGetter' F k st) (\<lambda>v1 s1.
                     if truthy_s v1 then Some (Inr None, s1)
                     else bnd (defineGetter' F k s1) (\<lambda>v2 s2.
                       if (case v2 of Plain (Bool b) \<Rightarrow> True | _ \<Rightarrow> False) then Some (Inr None, s2)
                       else bnd (if allowFalsyValues (fopts F)
                                 then bnd (defineGetter' F k s2)
                                        (\<lambda>v3 s3. Some (Inr (v3 \<noteq> Plain Undefined), s3))
                                 else Some (Inr False, s2)) (\<lambda>provided s3.
                         if provided then Some (Inr None, s3)
                         else bnd (defineGetter' F k s3) (\<lambda>v4 s4.
                              bnd (defineGetter' F k s4) (\<lambda>v5 s5.
                                Some (Inr (Some (Err SetterError message v4 v5 (name (attrs p)))),
                                      s5)))))) of
                None \<Rightarrow> None
              | Some (Inl e, s) \<Rightarrow> Some (Inl e, (errors, s))
              | Some (Inr None, s) \<Rightarrow> Some (Inr (), (errors, s))
              | Some (Inr (Some e), s) \<Rightarrow> Some (Inr (), (errors @ [e], s)))))"

text \<open>
  The loop over the nested schemas writes the prefixed name into the descriptor of every
  error a nested instance returned:
  \<^verbatim>\<open>subError.fieldSchema.name = `${name}.${subError.fieldSchema.name}` \<close>. On the copy
  held by a pending error this changes the returned error only (\<open>prefixFieldName\<close>). On
  an error made by the nested required check it renames the descriptor in the compiled
  schema of the nested class, for all its instances and for every later call: the nested
  field is then written under the new name and read under the old one, and the next
  \<^verbatim>\<open>getErrors()\<close> prefixes the name once more. A compiled schema cannot change in this
  model, so such a run has no result here: \<open>getErrors_sub\<close> is \<open>None\<close> when the
  nested result is flagged.
\<close>

definition prefixFieldName :: "string \<Rightarrow> err \<Rightarrow> err" where
  "prefixFieldName k e =
     Err (errorClass e) (errorMessage e) (setValue e) (originalValue e)
       (Some (k @ ''.'' @ keyOf (fieldName e)))"

definition getErrors_sub ::
  "(factory \<Rightarrow> string \<Rightarrow> istate \<Rightarrow> (sval, istate) outcome) \<Rightarrow>
   (factory \<Rightarrow> istate \<Rightarrow> (err list \<times> bool, istate) outcome) \<Rightarrow>
   factory \<Rightarrow> props \<Rightarrow> err list \<times> istate \<Rightarrow> (unit, err list \<times> istate) outcome" where
  "getErrors_sub defineGetter' getErrors' F p es =
     (let errors = fst es; st = snd es; k = keyOf (name (attrs p)) in
      case objectType p of
        None \<Rightarrow> Some (Inr (), es)
      | Some F' \<Rightarrow>
          if type_tag (attrs p) \<noteq> TObject then Some (Inr (), es)
          else
            (case defineGetter' F k st of
               None \<Rightarrow> None
             | Some (Inl e, st1) \<Rightarrow> Some (Inl e, (errors, st1))
             | Some (Inr v, st1) \<Rightarrow>
                 (case v of
                    Instance ob oes \<Rightarrow>
                      (case getErrors' F' (ob, oes) of
                         None \<Rightarrow> None
                       | Some (Inl e, sub) \<Rightarrow>
                           Some (Inl e, (errors, storeBack (attrs p) k
                                                   (Instance (fst sub) (snd sub)) st1))
                       | Some (Inr subErrors, sub) \<Rightarrow>
                           if snd subErrors then None
                           else
                             Some (Inr (), (errors @ map (prefixFieldName k) (fst subErrors),
                                            storeBack (attrs p) k
                                              (Instance (fst sub) (snd sub)) st1)))
                  | _ \<Rightarrow> Some (Inl nativeTypeError, (errors, st1)))))"

definition getErrors_body ::
  "(factory \<Rightarrow> string \<Rightarrow> istate \<Rightarrow> (sval, istate) outcome) \<Rightarrow>
   (factory \<Rightarrow> istate \<Rightarrow> (err list \<times> bool, istate) outcome) \<Rightarrow>
   factory \<Rightarrow> istate \<Rightarrow> (err list \<times> bool, istate) outcome" where
  "getErrors_body defineGetter' getErrors' F st =
     (case bnd (forEach (getErrors_required defineGetter' F) (fschema F) ([], st))
             (\<lambda>u made.
                bnd (forEach (getErrors_sub defineGetter' getErrors' F) (fschema F)
                       (snd st @ fst made, snd made))
                  (\<lambda>u' es. Some (Inr (fst made \<noteq> []), es))) of
        None \<Rightarrow> None
      | Some (Inl e, es) \<Rightarrow> Some (Inl e, snd es)
      | Some (Inr flag, es) \<Rightarrow> Some (Inr (fst es, flag), snd es))"

record interp2 =
  i_toObject :: "runtime \<Rightarrow> factory \<Rightarrow> istate \<Rightarrow> (jsval, istate) outcome"
  i_toArray :: "runtime \<Rightarrow> factory option \<Rightarrow> sval list \<Rightarrow> (jsval, sval list) outcome"
  i_getErrors :: "runtime \<Rightarrow> factory \<Rightarrow> istate \<Rightarrow> (err list \<times> bool, istate) outcome"

primrec level2 :: "nat \<Rightarrow> interp2" where
  "level2 0 =
     \<lparr>i_toObject = (\<lambda>rt F st. None),
      i_toArray = (\<lambda>rt F xs. None),
      i_getErrors = (\<lambda>rt F st. None)\<rparr>"
| "level2 (Suc n) =
     \<lparr>i_toObject = (\<lambda>rt. toObject_body (defineGetter n rt) (i_toObject (level2 n) rt)
                        (i_toArray (level2 n) rt)),
      i_toArray = (\<lambda>rt. toArray_body (i_toObject (level2 n) rt)),
      i_getErrors = (\<lambda>rt. getErrors_body (defineGetter n rt) (i_getErrors (level2 n) rt))\<rparr>"

definition toObject :: "nat \<Rightarrow> runtime \<Rightarrow> factory \<Rightarrow> istate \<Rightarrow> (jsval, istate) outcome" where
  "toObject n = i_toObject (level2 n)"

definition toArray ::
  "nat \<Rightarrow> runtime \<Rightarrow> factory option \<Rightarrow> sval list \<Rightarrow> (jsval, sval list) outcome" where
  "toArray n = i_toArray (level2 n)"

text \<open>
  \<open>getErrors_flagged\<close> is the method with the flag, \<open>getErrors\<close> the list of errors it
  returns to its caller.
\<close>

definition getErrors_flagged ::
  "nat \<Rightarrow> runtime \<Rightarrow> factory \<Rightarrow> istate \<Rightarrow> (err list \<times> bool, istate) outcome" where
  "getErrors_flagged n = i_getErrors (level2 n)"

definition getErrors :: "nat \<Rightarrow> runtime \<Rightarrow> factory \<Rightarrow> istate \<Rightarrow> (err list, istate) outcome" where
  "getErrors n rt F st = bnd (getErrors_flagged n rt F st) (\<lambda>r s. Some (Inr (fst r), s))"

lemma toObject_Suc:
  "toObject (Suc n) rt F st =
     toObject_body (defineGetter n rt) (toObject n rt) (toArray n rt) F st"
  by (simp add: toObject_def toArray_def)

lemma toArray_Suc: "toArray (Suc n) rt F' xs = toArray_body (toObject n rt) F' xs"
  by (simp add: toObject_def toArray_def)

lemma getErrors_flagged_Suc:
  "getErrors_flagged (Suc n) rt F st =
     getErrors_body (defineGetter n rt) (getErrors_flagged n rt) F st"
  by (simp add: getErrors_flagged_def)

lemma interp2_0:
  "toObject 0 rt F st = None" "toArray 0 rt F' xs = None" "getErrors_flagged 0 rt F st = None"
  "getErrors 0 rt F st = None"
  by (simp_all add: toObject_def toArray_def getErrors_def getErrors_flagged_def bnd_def)

section \<open>Schema compilation on a heap\<close>

text \<open>
  Whether compiling a schema writes to an object of the caller depends on which object each
  assignment of \<^verbatim>\<open>normalizeProperties\<close> reaches. Here objects live in a heap, a list
  indexed by address; a new object is appended. An object has a kind (a function keeps its
  \<^verbatim>\<open>name\<close> there), its own enumerable properties (an array has its elements under
  the keys \<^verbatim>\<open>"0"\<close>, \<^verbatim>\<open>"1"\<close>, ...) and, for a function, the variables it
  closes over.
\<close>

datatype hval = HUndefined | HNull | HBool bool | HNum rat | HStr string | HRef nat

datatype hkind = PlainObject | ArrayObject | FunctionObject string | OtherObject string

record hobj =
  okind :: hkind
  oprops :: "(string \<times> hval) list"
  closure :: "hval list"

type_synonym heap = "hobj list"

definition hset :: "heap \<Rightarrow> nat \<Rightarrow> string \<Rightarrow> hval \<Rightarrow> heap" where
  "hset h a k v = h[a := (h ! a)\<lparr>oprops := assign k v (oprops (h ! a))\<rparr>]"











text \<open>
  \<^verbatim>\<open>new SchemaObject(schema, options)\<close> for an automatically compiled sub-schema. The
  caller clones the options of the parent, drops \<^verbatim>\<open>toObject\<close> and sets
  \<^verbatim>\<open>inheritRootThis\<close>; the constructor merges them over its defaults into a new object,
  adds a default constructor where none is inherited, and returns the factory, a function
  that keeps the schema and the options by reference. (The constructor throws on options
  that need a \<^verbatim>\<open>Proxy\<close> where there is none; inherited options passed that check when
  the parent was made.)
\<close>

definition newObject :: "(string \<times> hval) list \<Rightarrow> hobj" where
  "newObject fs = \<lparr>okind = PlainObject, oprops = fs, closure = []\<rparr>"

definition newFunction :: "string \<Rightarrow> hval list \<Rightarrow> hobj" where
  "newFunction nm env = \<lparr>okind = FunctionObject nm, oprops = [], closure = env\<rparr>"

definition defaultOptionFields :: "(string \<times> hval) list" where
  "defaultOptionFields =
     [(''strict'', HBool True), (''dotNotation'', HBool False), (''setUndefined'', HBool False),
      (''preserveNull'', HBool False), (''keysIgnoreCase'', HBool False),
      (''inheritRootThis'', HBool False), (''allowFalsyValues'', HBool True),
      (''useDecimalNumberGroupSeparator'', HBool False)]"


















text \<open>
  The two parts of one round of the required check, named for the statements about it:
  whether the declaration asks for the field on this instance, and the error the round
  makes for a field that reads \<open>v\<close>.
\<close>

definition requiredHolds :: "reqd \<Rightarrow> (string \<times> sval) list \<Rightarrow> bool" where
  "requiredHolds r obj =
     (case (case r of Required c \<Rightarrow> c | RequiredPair c m \<Rightarrow> c) of
        ReqValue v \<Rightarrow> truthy v
      | ReqFn f \<Rightarrow> truthy (f obj))"

definition requiredError :: "reqd \<Rightarrow> attrs \<Rightarrow> sval \<Rightarrow> err" where
  "requiredError r p v =
     Err SetterError
       (case r of
          Required c \<Rightarrow> Str (requiredMessage (keyOf (name p)))
        | RequiredPair c m \<Rightarrow> (if truthy m then m else Str (requiredMessage (keyOf (name p)))))
       v v (name p)"

text \<open>
  The value a read stores in an unset object or array field: a new wrapper, the declared
  default, a new nested instance, or a plain empty object.
\<close>

definition schemaDefinedEmpty :: "nat \<Rightarrow> runtime \<Rightarrow> props \<Rightarrow> (string \<times> sval) list \<Rightarrow> sval option" where
  "schemaDefinedEmpty n rt p obj =
     (if type_tag (attrs p) = TArray then Some (SchemaArray [])
      else if hasDefault (attrs p) then Some (Plain (defaultOf (attrs p) obj))
      else
        (case objectType p of
           None \<Rightarrow> Some (Plain (Obj []))
         | Some F' \<Rightarrow>
             (case construct n rt F' (Obj []) of
                Some (Inr u, sub) \<Rightarrow> Some (Instance (fst sub) (snd sub))
              | _ \<Rightarrow> None)))"

section \<open>A runtime and declarations for the examples\<close>

text \<open>
  The examples below run on \<open>engine\<close>, a runtime in the UTC time zone that reads decimal
  literals (an optional sign, digits, an optional fraction; no exponent, no hexadecimal
  form, no \<^verbatim>\<open>Infinity\<close> literal) and ISO dates of the form \<^verbatim>\<open>YYYY-MM-DD\<close>, and
  prints numbers of at most twenty fractional digits in positional notation. On the
  strings and numbers of the examples it agrees with ECMAScript.
\<close>

definition isDigit :: "char \<Rightarrow> bool" where
  "isDigit c = (48 \<le> (of_char c :: nat) \<and> (of_char c :: nat) \<le> 57)"

definition digitsNat :: "string \<Rightarrow> nat" where
  "digitsNat s = foldl (\<lambda>a c. 10 * a + (of_char c - 48)) 0 s"

definition readDecimal :: "string \<Rightarrow> (rat \<times> string) option" where
  "readDecimal s =
     (let i = takeWhile isDigit s; r = dropWhile isDigit s in
      case r of
        c # r' \<Rightarrow>
          (if c = CHR ''.'' then
             (let f = takeWhile isDigit r' in
              if i = [] \<and> f = [] then None
              else Some (of_nat (digitsNat i) + of_nat (digitsNat f) / 10 ^ length f,
                         dropWhile isDigit r'))
           else if i = [] then None else Some (of_nat (digitsNat i), r))
      | [] \<Rightarrow> if i = [] then None else Some (of_nat (digitsNat i), []))"

definition readSigned :: "string \<Rightarrow> (rat \<times> string) option" where
  "readSigned s =
     (case s of
        c # t \<Rightarrow>
          (if c = CHR ''-'' then map_option (\<lambda>(r, rest). (- r, rest)) (readDecimal t)
           else if c = CHR ''+'' then readDecimal t
           else readDecimal s)
      | [] \<Rightarrow> None)"

definition isSpace :: "char \<Rightarrow> bool" where
  "isSpace c = (c = CHR '' '' \<or> c = CHR 0x09 \<or> c = CHR 0x0A \<or> c = CHR 0x0D)"

definition Number_dec :: "string \<Rightarrow> jsnum" where
  "Number_dec s =
     (let t = rev (dropWhile isSpace (rev (dropWhile isSpace s))) in
      if t = [] then Fin 0
      else case readSigned t of Some (r, []) \<Rightarrow> Fin r | _ \<Rightarrow> NaN)"

definition parseFloat_dec :: "string \<Rightarrow> jsnum" where
  "parseFloat_dec s =
     (case readSigned (dropWhile isSpace s) of None \<Rightarrow> NaN | Some (r, rest) \<Rightarrow> Fin r)"

fun fracDigits :: "nat \<Rightarrow> rat \<Rightarrow> string" where
  "fracDigits 0 r = []"
| "fracDigits (Suc k) r =
     (if r = 0 then []
      else (''0123456789'' ! nat \<lfloor>r * 10\<rfloor>) # fracDigits k (r * 10 - of_int \<lfloor>r * 10\<rfloor>))"

definition unsignedToString :: "rat \<Rightarrow> string" where
  "unsignedToString r =
     string_of_nat (nat \<lfloor>r\<rfloor>) @
     (if r = of_int \<lfloor>r\<rfloor> then [] else CHR ''.'' # fracDigits 20 (r - of_int \<lfloor>r\<rfloor>))"

fun numToString_dec :: "jsnum \<Rightarrow> string" where
  "numToString_dec NaN = ''NaN''"
| "numToString_dec PInf = ''Infinity''"
| "numToString_dec NInf = ''-Infinity''"
| "numToString_dec (Fin r) =
     (if r < 0 then CHR ''-'' # unsignedToString (- r) else unsignedToString r)"

definition days_from_civil :: "int \<Rightarrow> int \<Rightarrow> int \<Rightarrow> int" where
  "days_from_civil y m d =
     (let y' = (if m \<le> 2 then y - 1 else y);
          era = y' div 400;
          yoe = y' - era * 400;
          doy = (153 * (if 2 < m then m - 3 else m + 9) + 2) div 5 + d - 1;
          doe = yoe * 365 + yoe div 4 - yoe div 100 + doy
      in era * 146097 + doe - 719468)"

definition daysInMonth :: "int \<Rightarrow> int \<Rightarrow> int" where
  "daysInMonth y m =
     (if m = 2 then (if y mod 4 = 0 \<and> (y mod 100 \<noteq> 0 \<or> y mod 400 = 0) then 29 else 28)
      else if m = 4 \<or> m = 6 \<or> m = 9 \<or> m = 11 then 30 else 31)"

definition Date_parse_iso :: "string \<Rightarrow> jsnum" where
  "Date_parse_iso s =
     (if length s = 10 \<and> s ! 4 = CHR ''-'' \<and> s ! 7 = CHR ''-'' \<and>
         list_all isDigit (take 4 s @ take 2 (drop 5 s) @ drop 8 s)
      then
        (let y = int (digitsNat (take 4 s)); m = int (digitsNat (take 2 (drop 5 s)));
             d = int (digitsNat (drop 8 s))
         in if 1 \<le> m \<and> m \<le> 12 \<and> 1 \<le> d \<and> d \<le> daysInMonth y m
            then Fin (of_int (days_from_civil y m d * 86400000)) else NaN)
      else NaN)"

definition pad :: "nat \<Rightarrow> int \<Rightarrow> string" where
  "pad w i = replicate (w - length (string_of_nat (nat i))) CHR ''0'' @ string_of_nat (nat i)"

definition date_toString_utc :: "jsnum \<Rightarrow> string" where
  "date_toString_utc t =
     (case t of
        Fin r \<Rightarrow>
          (let ms = \<lfloor>r\<rfloor>; z = ms div 86400000; s = (ms mod 86400000) div 1000;
               z' = z + 719468; era = z' div 146097; doe = z' - era * 146097;
               yoe = (doe - doe div 1460 + doe div 36524 - doe div 146096) div 365;
               doy = doe - (365 * yoe + yoe div 4 - yoe div 100);
               mp = (5 * doy + 2) div 153;
               d = doy - (153 * mp + 2) div 5 + 1;
               m = (if mp < 10 then mp + 3 else mp - 9);
               y = yoe + era * 400 + (if m \<le> 2 then 1 else 0)
           in [''Sun'', ''Mon'', ''Tue'', ''Wed'', ''Thu'', ''Fri'', ''Sat''] ! nat ((z + 4) mod 7)
              @ '' '' @
              [''Jan'', ''Feb'', ''Mar'', ''Apr'', ''May'', ''Jun'', ''Jul'', ''Aug'', ''Sep'',
               ''Oct'', ''Nov'', ''Dec''] ! nat (m - 1)
              @ '' '' @ pad 2 d @ '' '' @ pad 4 y @ '' '' @ pad 2 (s div 3600) @ '':'' @
              pad 2 ((s mod 3600) div 60) @ '':'' @ pad 2 (s mod 60) @
              '' GMT+0000 (Coordinated Universal Time)'')
      | _ \<Rightarrow> ''Invalid Date'')"

definition engine :: runtime where
  "engine =
     \<lparr>Number_str = Number_dec, parseFloat_str = parseFloat_dec, num_toString = numToString_dec,
      Date_parse = Date_parse_iso, date_toString = date_toString_utc\<rparr>"

text \<open>
  A properties hash that declares nothing, and the default options of the
  \<^verbatim>\<open>SchemaObject\<close> constructor.
\<close>

definition undeclared :: attrs where
  "undeclared =
     \<lparr>name = None, type_tag = TAny, transform = None, stringTransform = None,
      numberTransform = None, booleanTransform = None, dateTransform = None,
      getter_hook = None, clip = Undefined, enum_c = Undefined, minLength = Undefined,
      maxLength = Undefined, regex = Undefined, min_c = Undefined, max_c = Undefined,
      default_v = None, readOnly = False, invisible = False, isAlias = False,
      required = None, unique = False, filter_p = None, index = None\<rparr>"

definition defaultOptions :: options where
  "defaultOptions =
     \<lparr>setUndefined = False, preserveNull = False, allowFalsyValues = True,
      useDecimalNumberGroupSeparator = False, onBeforeValueSet = None, toObject_hook = None\<rparr>"

text \<open>Scenario A: \<^verbatim>\<open>{ age: { type: Number, min: 0, max: 120 } }\<close>.\<close>

definition age_factory :: factory where
  "age_factory =
     Factory defaultOptions
       [Props (undeclared\<lparr>name := Some ''age'', type_tag := TNumber,
                 min_c := Num (Fin 0), max_c := Num (Fin 120)\<rparr>) None None]"

text \<open>Scenario B: \<^verbatim>\<open>{ tags: [{ type: String, maxLength: 5 }] }\<close>.\<close>

definition tags_props :: props where
  "tags_props =
     Props (undeclared\<lparr>name := Some ''tags'', type_tag := TArray\<rparr>)
       (Some (Props (undeclared\<lparr>type_tag := TString, maxLength := Num (Fin 5)\<rparr>) None None))
       None"

definition tags_factory :: factory where
  "tags_factory = Factory defaultOptions [tags_props]"

text \<open>Scenario C: \<^verbatim>\<open>{ name: { type: String, required: true } }\<close>.\<close>

definition name_factory :: factory where
  "name_factory =
     Factory defaultOptions
       [Props (undeclared\<lparr>name := Some ''name'', type_tag := TString,
                 required := Some (Required (ReqValue (Bool True)))\<rparr>) None None]"

text \<open>
  A required flag under \<^verbatim>\<open>allowFalsyValues: false\<close>:
  \<^verbatim>\<open>{ flag: { type: Boolean, required: [true, 'flag missing'] } }\<close>.
\<close>

definition flag_factory :: factory where
  "flag_factory =
     Factory (defaultOptions\<lparr>allowFalsyValues := False\<rparr>)
       [Props (undeclared\<lparr>name := Some ''flag'', type_tag := TBoolean,
                 required := Some (RequiredPair (ReqValue (Bool True)) (Str ''flag missing''))\<rparr>)
          None None]"

text \<open>
  Three declarations of an object or array field: a getter hook that throws, a factory
  whose \<^verbatim>\<open>onBeforeValueSet\<close> refuses every write, and the declared default
  \<^verbatim>\<open>null\<close>.
\<close>

definition throwing_getter_factory :: factory where
  "throwing_getter_factory =
     Factory defaultOptions
       [Props (undeclared\<lparr>name := Some ''tags'', type_tag := TArray,
                 getter_hook := Some (\<lambda>v. Inl nativeTypeError)\<rparr>) None None]"

definition veto_factory :: factory where
  "veto_factory =
     Factory (defaultOptions\<lparr>onBeforeValueSet := Some (\<lambda>v k. Bool False)\<rparr>)
       [Props (undeclared\<lparr>name := Some ''tags'', type_tag := TArray\<rparr>) None None]"

definition null_default_factory :: factory where
  "null_default_factory =
     Factory defaultOptions
       [Props (undeclared\<lparr>name := Some ''profile'', type_tag := TObject,
                 default_v := Some (DefaultValue Null)\<rparr>) None None]"


definition hash_heap :: heap where
  "hash_heap =
     [newFunction ''Number'' [],
      newFunction [] [],
      newObject [(''default'', HRef 1)],
      newObject (defaultOptionFields @ [(''constructors'', HRef 2)]),
      newObject [(''type'', HRef 0), (''min'', HNum 0)],
      newObject [(''age'', HRef 4)]]"

section \<open>Unfolding the model\<close>

lemmas body_defs =
  typecast_body_def push_body_def defineGetter_body_def defineSetter_body_def
  writeValue_body_def clearField_body_def clear_body_def construct_body_def populate_body_def
  toObject_body_def toObject_field_def toArray_body_def writeUnlessEmpty_def
  getErrors_body_def getErrors_required_def getErrors_sub_def

lemmas cast_defs =
  typecast_string_def typecast_number_def typecast_boolean_def typecast_date_def
  bindE_def applyHook_def detectCustomErrorMessage_def detectEnum_def
  isAbsent_def isNumeric_def js_lt_def mkError_def orDefault_def NumberCastError_of_def
  normalizeSeparators_def substr0_def js_length_def regex_test_def indexOfFound_def
  getProp_def at_index_def

lemmas state_defs =
  bnd_def lookupField_def readObj_def keyOf_def getter_def hasDefault_def defaultOf_def
  vetoed_def storeBack_def difference_def readOnlyOff_def ownerProps_def fieldFactory_def
  elemFactory_def requiredMessage_def prefixFieldName_def

lemmas step_simps =
  typecast_Suc push_Suc defineGetter_Suc defineSetter_Suc writeValue_Suc clearField_Suc
  clear_Suc construct_Suc populate_Suc toObject_Suc toArray_Suc getErrors_flagged_Suc
  getErrors_def

lemmas example_defs = undeclared_def defaultOptions_def

lemma engine_Number_15: "Number_str engine ''15'' = Fin 15"
  unfolding engine_def by (simp, code_simp)

lemma engine_Number_m1: "Number_str engine ''-1'' = Fin (- 1)"
  unfolding engine_def by (simp, code_simp)

lemma engine_parseFloat_15: "parseFloat_str engine ''15'' = Fin 15"
  unfolding engine_def by (simp, code_simp)

lemma engine_parseFloat_m1: "parseFloat_str engine ''-1'' = Fin (- 1)"
  unfolding engine_def by (simp, code_simp)

lemma engine_toString_5: "num_toString engine (Fin 5) = ''5''"
  unfolding engine_def by (simp, code_simp)

lemma engine_Number_pair: "Number_str engine ''5,too long'' = NaN"
  unfolding engine_def by (simp, code_simp)

lemma engine_Date_parse_tomorrow: "Date_parse engine ''tomorrow'' = NaN"
  unfolding engine_def by (simp, code_simp)

lemma engine_date_toString_NaN: "date_toString engine NaN = ''Invalid Date''"
  unfolding engine_def by (simp add: date_toString_utc_def)

text \<open>
  A loop whose rounds do not throw does not throw, and the setter catches whatever its
  body throws.
\<close>

lemma map_of_assign: "map_of (assign k v kvs) k = Some v"
  by (induction kvs) auto

lemma readObj_assign: "readObj (assign k v obj) k = v"
  by (simp add: readObj_def map_of_assign)

lemma forEach_no_throw:
  assumes "\<And>x s e s'. f x s \<noteq> Some (Inl e, s')"
  shows "forEach f xs s \<noteq> Some (Inl e, s')"
proof (induction xs arbitrary: s)
  case Nil
  show ?case by simp
next
  case (Cons x xs)
  show ?case
  proof (cases "f x s")
    case None
    then show ?thesis by (simp add: bnd_def)
  next
    case (Some r)
    obtain res s1 where r: "r = (res, s1)" by (cases r)
    show ?thesis
    proof (cases res)
      case (Inl e')
      with Some r assms show ?thesis by simp
    next
      case (Inr u)
      with Some r Cons show ?thesis by (simp add: bnd_def)
    qed
  qed
qed

lemma defineSetter_no_throw: "defineSetter n rt F k v st \<noteq> Some (Inl e, st')"
proof (cases n)
  case 0
  then show ?thesis by (simp add: interp_0)
next
  case (Suc m)
  then show ?thesis
    by (simp add: defineSetter_Suc defineSetter_body_def split: option.splits sum.splits prod.splits)
qed

lemma populate_no_throw: "populate n rt F v st \<noteq> Some (Inl e, st')"
proof (cases n)
  case 0
  then show ?thesis by (simp add: interp_0)
next
  case (Suc m)
  then show ?thesis
    by (simp add: populate_Suc populate_body_def forEach_no_throw defineSetter_no_throw)
qed

lemma construct_no_throw: "construct n rt F v \<noteq> Some (Inl e, st')"
proof (cases n)
  case 0
  then show ?thesis by (simp add: interp_0)
next
  case (Suc m)
  have "forEach (\<lambda>p s. if hasDefault (attrs p)
                          then defineSetter m rt (readOnlyOff F p) (keyOf (name (attrs p)))
                                 (defaultOf (attrs p) (fst s)) s
                          else Some (Inr (), s)) (fschema F) ([], []) \<noteq> Some (Inl e, st')" for e st'
    by (rule forEach_no_throw) (simp add: defineSetter_no_throw)
  with Suc show ?thesis
    by (auto simp add: construct_Suc construct_body_def bnd_def populate_no_throw
        split: option.splits sum.splits prod.splits)
qed

section \<open>Scenario A: a number with a minimum\<close>

text \<open>
  Claim C3. On an instance of the schema \<^verbatim>\<open>{ age: { type: Number, min: 0, max: 120 } }\<close>,
  constructed with no input, assigning \<^verbatim>\<open>age = "15"\<close> stores the number 15 and logs no
  error, so that a read returns 15; assigning \<^verbatim>\<open>age = "-1"\<close> then leaves the stored 15
  in place and appends exactly one error to the log, of class
  \<^verbatim>\<open>NumberMinValidationError\<close> (code 1221, a \<^verbatim>\<open>ValidationError\<close>), and a read after the
  rejected assignment still returns 15 and leaves value and log as they are. This holds on every
  runtime that reads the two literals as the numbers they denote, and at every call depth
  bound from 2 on.
\<close>

theorem scenario_A_age:
  assumes "Number_str rt ''15'' = Fin 15" and "parseFloat_str rt ''15'' = Fin 15"
    and "Number_str rt ''-1'' = Fin (- 1)" and "parseFloat_str rt ''-1'' = Fin (- 1)"
  shows "construct (Suc (Suc n)) rt age_factory Undefined = Some (Inr (), ([], [])) \<and>
         defineSetter (Suc (Suc n)) rt age_factory ''age'' (Str ''15'') ([], []) =
           Some (Inr (), ([(''age'', Plain (Num (Fin 15)))], [])) \<and>
         defineGetter (Suc n) rt age_factory ''age'' ([(''age'', Plain (Num (Fin 15)))], []) =
           Some (Inr (Plain (Num (Fin 15))), ([(''age'', Plain (Num (Fin 15)))], [])) \<and>
         defineSetter (Suc (Suc n)) rt age_factory ''age'' (Str ''-1'')
             ([(''age'', Plain (Num (Fin 15)))], []) =
           Some (Inr (), ([(''age'', Plain (Num (Fin 15)))],
             [Err NumberMinValidationError (Str ''Number is too small to meet min requirement.'')
                (Plain (Num (Fin (- 1)))) (Plain (Num (Fin 15))) (Some ''age'')])) \<and>
         defineGetter (Suc n) rt age_factory ''age''
             ([(''age'', Plain (Num (Fin 15)))],
              [Err NumberMinValidationError (Str ''Number is too small to meet min requirement.'')
                 (Plain (Num (Fin (- 1)))) (Plain (Num (Fin 15))) (Some ''age'')]) =
           Some (Inr (Plain (Num (Fin 15))), ([(''age'', Plain (Num (Fin 15)))],
             [Err NumberMinValidationError (Str ''Number is too small to meet min requirement.'')
                (Plain (Num (Fin (- 1)))) (Plain (Num (Fin 15))) (Some ''age'')])) \<and>
         errorType NumberMinValidationError = Some ''ValidationError'' \<and>
         errorCode NumberMinValidationError = 1221"
  using assms
  by (simp add: step_simps body_defs cast_defs state_defs age_factory_def example_defs)

theorem scenario_A_age_witness:
  "construct 2 engine age_factory Undefined = Some (Inr (), ([], [])) \<and>
   defineSetter 2 engine age_factory ''age'' (Str ''15'') ([], []) =
     Some (Inr (), ([(''age'', Plain (Num (Fin 15)))], [])) \<and>
   defineGetter 1 engine age_factory ''age'' ([(''age'', Plain (Num (Fin 15)))], []) =
     Some (Inr (Plain (Num (Fin 15))), ([(''age'', Plain (Num (Fin 15)))], [])) \<and>
   defineSetter 2 engine age_factory ''age'' (Str ''-1'') ([(''age'', Plain (Num (Fin 15)))], []) =
     Some (Inr (), ([(''age'', Plain (Num (Fin 15)))],
       [Err NumberMinValidationError (Str ''Number is too small to meet min requirement.'')
          (Plain (Num (Fin (- 1)))) (Plain (Num (Fin 15))) (Some ''age'')])) \<and>
   defineGetter 1 engine age_factory ''age''
       ([(''age'', Plain (Num (Fin 15)))],
        [Err NumberMinValidationError (Str ''Number is too small to meet min requirement.'')
           (Plain (Num (Fin (- 1)))) (Plain (Num (Fin 15))) (Some ''age'')]) =
     Some (Inr (Plain (Num (Fin 15))), ([(''age'', Plain (Num (Fin 15)))],
       [Err NumberMinValidationError (Str ''Number is too small to meet min requirement.'')
          (Plain (Num (Fin (- 1)))) (Plain (Num (Fin 15))) (Some ''age'')])) \<and>
   errorType NumberMinValidationError = Some ''ValidationError'' \<and>
   errorCode NumberMinValidationError = 1221"
  using scenario_A_age [of engine 0, OF engine_Number_15 engine_parseFloat_15
      engine_Number_m1 engine_parseFloat_m1]
  by (simp add: eval_nat_numeral)

section \<open>Scenario C: a required field\<close>

text \<open>
  Claim C4. On an instance of the schema \<^verbatim>\<open>{ name: { type: String, required: true } }\<close>
  constructed with no input, \<^verbatim>\<open>getErrors()\<close> returns exactly one error, for the field
  \<^verbatim>\<open>name\<close>, while the error log of the instance itself stays empty: the error is made
  at retrieval, from the value the field has then. After \<^verbatim>\<open>name = "Ann"\<close>,
  \<^verbatim>\<open>getErrors()\<close> returns the empty list. This holds on every runtime and at every call
  depth bound from 2 on.
\<close>

theorem scenario_C_required:
  "construct (Suc (Suc n)) rt name_factory Undefined = Some (Inr (), ([], [])) \<and>
   getErrors (Suc (Suc n)) rt name_factory ([], []) =
     Some (Inr [Err SetterError (Str ''name is required but not provided'')
                  (Plain Undefined) (Plain Undefined) (Some ''name'')], ([], [])) \<and>
   defineSetter (Suc (Suc n)) rt name_factory ''name'' (Str ''Ann'') ([], []) =
     Some (Inr (), ([(''name'', Plain (Str ''Ann''))], [])) \<and>
   getErrors (Suc (Suc n)) rt name_factory ([(''name'', Plain (Str ''Ann''))], []) =
     Some (Inr [], ([(''name'', Plain (Str ''Ann''))], []))"
  by (simp add: step_simps body_defs cast_defs state_defs name_factory_def example_defs)

section \<open>Scenario B: an array of short strings\<close>

text \<open>
  Claim C2. On a wrapper whose element descriptor is
  \<^verbatim>\<open>{ type: String, maxLength: 5 }\<close>, \<^verbatim>\<open>push("hello")\<close> appends the string and
  returns the new length 1. \<^verbatim>\<open>push("toolong")\<close> then leaves the wrapper as it is, but
  it does not return: the \<^verbatim>\<open>StringMaxLengthValidationError\<close> that \<^verbatim>\<open>typecast\<close> throws
  for the candidate leaves \<^verbatim>\<open>push\<close> as an exception, since \<^verbatim>\<open>push\<close> calls
  \<^verbatim>\<open>typecast\<close> outside any \<^verbatim>\<open>try\<close>. This holds on every runtime and at every call
  depth bound from 2 on.
\<close>

theorem push_rejected_candidate_throws:
  "push (Suc (Suc n)) rt defaultOptions tags_props [Str ''hello''] [] =
     Some (Inr 1, [Plain (Str ''hello'')]) \<and>
   push (Suc (Suc n)) rt defaultOptions tags_props [Str ''toolong''] [Plain (Str ''hello'')] =
     Some (Inl (Err StringMaxLengthValidationError
                  (Str ''String length too long to meet maxLength requirement.'')
                  (Plain (Str ''toolong'')) (Plain Undefined) None),
           [Plain (Str ''hello'')])"
  by (simp add: step_simps body_defs cast_defs state_defs tags_props_def example_defs)

text \<open>
  Claim C1. An assignment to a field never throws to its caller, whatever the schema, the
  field and the value. But on the schema \<^verbatim>\<open>{ tags: [{ type: String, maxLength: 5 }] }\<close>,
  with \<^verbatim>\<open>tags\<close> holding \<^verbatim>\<open>["a"]\<close>, the rejected assignment
  \<^verbatim>\<open>tags = ["toolong", "hello"]\<close> logs one error and leaves the wrapper empty, and
  \<^verbatim>\<open>tags = ["hello", "toolong"]\<close> logs one error and leaves \<^verbatim>\<open>["hello"]\<close>: the
  wrapper is emptied before its elements are cast, the first rejected element ends the
  assignment, and the elements before it stay. The second and the third statement hold on
  every runtime and at every call depth bound from 4 on.
\<close>

theorem array_assignment_partial:
  "defineSetter m rt F k v st \<noteq> Some (Inl e, st') \<and>
   defineSetter (Suc (Suc (Suc (Suc n)))) rt tags_factory ''tags''
       (Arr [Str ''toolong'', Str ''hello''])
       ([(''tags'', SchemaArray [Plain (Str ''a'')])], []) =
     Some (Inr (), ([(''tags'', SchemaArray [])],
       [Err StringMaxLengthValidationError
          (Str ''String length too long to meet maxLength requirement.'')
          (Plain (Str ''toolong'')) (Plain Undefined) None])) \<and>
   defineSetter (Suc (Suc (Suc (Suc n)))) rt tags_factory ''tags''
       (Arr [Str ''hello'', Str ''toolong''])
       ([(''tags'', SchemaArray [Plain (Str ''a'')])], []) =
     Some (Inr (), ([(''tags'', SchemaArray [Plain (Str ''hello'')])],
       [Err StringMaxLengthValidationError
          (Str ''String length too long to meet maxLength requirement.'')
          (Plain (Str ''toolong'')) (Plain Undefined) None]))"
  by (simp add: defineSetter_no_throw step_simps body_defs cast_defs state_defs
      tags_factory_def tags_props_def example_defs)

section \<open>Clipping against a maximal length in pair form\<close>

text \<open>
  Claim C8. With \<^verbatim>\<open>clip: true\<close>, the bare \<^verbatim>\<open>maxLength: 5\<close> clips
  \<^verbatim>\<open>"toolong"\<close> to \<^verbatim>\<open>"toolo"\<close>, while the pair form
  \<^verbatim>\<open>maxLength: [5, 'too long']\<close> clips it to the empty string: the clipping step
  passes the declared \<^verbatim>\<open>maxLength\<close> itself to \<^verbatim>\<open>substr\<close>, and the pair is not a
  number. The length check below it reads the pair through
  \<^verbatim>\<open>detectCustomErrorMessage\<close>. Evaluated on the runtime \<open>engine\<close>.
\<close>

theorem clip_pair_form:
  "typecast_string engine (undeclared\<lparr>type_tag := TString, clip := Bool True,
        maxLength := Num (Fin 5)\<rparr>) (Str ''toolong'') (Plain Undefined) = Inr (Str ''toolo'') \<and>
   typecast_string engine (undeclared\<lparr>type_tag := TString, clip := Bool True,
        maxLength := Arr [Num (Fin 5), Str ''too long'']\<rparr>) (Str ''toolong'') (Plain Undefined) =
     Inr (Str '''')"
  by (simp add: cast_defs example_defs engine_toString_5 engine_Number_pair)

section \<open>Failures of the date cast\<close>

text \<open>
  Claim C5. Let the cast of a value to a date fail. If the value is a date, a string or a
  number, the error is a \<^verbatim>\<open>DateParseValidationError\<close> with the default message, unless
  it is what the field's own \<^verbatim>\<open>dateTransform\<close> hook threw; for any other value it is
  the \<^verbatim>\<open>DateCastError\<close>. And these casts do fail: a value that is present (not
  \<^verbatim>\<open>undefined\<close>, \<^verbatim>\<open>null\<close> or the empty string, which clear the field) and is no
  date, string or number raises the \<^verbatim>\<open>DateCastError\<close>; a non-empty string that
  \<^verbatim>\<open>Date.parse\<close> does not read, a number that is not finite, and an invalid date (on a
  runtime that prints it as \<^verbatim>\<open>Invalid Date\<close>) raise the
  \<^verbatim>\<open>DateParseValidationError\<close>. The latter is a \<^verbatim>\<open>ValidationError\<close> with code
  1231, the former a \<^verbatim>\<open>CastError\<close> with code 1105.
\<close>

theorem date_failures:
  "(typecast_date rt p v orig = Inl e \<longrightarrow>
      (if isDate v \<or> isString v \<or> isNumber v
       then (errorClass e = DateParseValidationError \<and>
             errorMessage e = Str ''Could not parse date.'' \<and>
             originalValue e = orig \<and> fieldName e = name p) \<or>
            (\<exists>h w. dateTransform p = Some h \<and> h w orig = Inl e)
       else e = mkError DateCastError Undefined v orig p)) \<and>
   (\<not> isAbsent v \<and> \<not> isDate v \<and> \<not> isString v \<and> \<not> isNumber v \<longrightarrow>
      typecast_date rt p v orig = Inl (mkError DateCastError Undefined v orig p)) \<and>
   (s \<noteq> [] \<and> Date_parse rt s = NaN \<longrightarrow>
      typecast_date rt p (Str s) orig =
        Inl (mkError DateParseValidationError Null (Num NaN) orig p)) \<and>
   (\<not> isFinite x \<longrightarrow>
      typecast_date rt p (Num x) orig =
        Inl (mkError DateParseValidationError Null (Num x) orig p)) \<and>
   (date_toString rt NaN = ''Invalid Date'' \<longrightarrow>
      typecast_date rt p (DateV NaN) orig =
        Inl (mkError DateParseValidationError Null (DateV NaN) orig p)) \<and>
   errorType DateParseValidationError = Some ''ValidationError'' \<and>
   errorCode DateParseValidationError = 1231 \<and>
   errorType DateCastError = Some ''CastError'' \<and> errorCode DateCastError = 1105"
proof -
  have a: "typecast_date rt p v orig = Inl e \<longrightarrow>
      (if isDate v \<or> isString v \<or> isNumber v
       then (errorClass e = DateParseValidationError \<and>
             errorMessage e = Str ''Could not parse date.'' \<and>
             originalValue e = orig \<and> fieldName e = name p) \<or>
            (\<exists>h w. dateTransform p = Some h \<and> h w orig = Inl e)
       else e = mkError DateCastError Undefined v orig p)"
    by (auto simp add: typecast_date_def mkError_def orDefault_def applyHook_def Let_def
        split: if_splits option.splits)
  have b: "\<not> isAbsent v \<and> \<not> isDate v \<and> \<not> isString v \<and> \<not> isNumber v \<longrightarrow>
      typecast_date rt p v orig = Inl (mkError DateCastError Undefined v orig p)"
    by (simp add: typecast_date_def)
  have c: "s \<noteq> [] \<and> Date_parse rt s = NaN \<longrightarrow>
      typecast_date rt p (Str s) orig =
        Inl (mkError DateParseValidationError Null (Num NaN) orig p)"
    by (simp add: typecast_date_def isAbsent_def isNumeric_def)
  have d: "\<not> isFinite x \<longrightarrow>
      typecast_date rt p (Num x) orig =
        Inl (mkError DateParseValidationError Null (Num x) orig p)"
    by (cases x) (simp_all add: typecast_date_def isAbsent_def isNumeric_def)
  have f: "date_toString rt NaN = ''Invalid Date'' \<longrightarrow>
      typecast_date rt p (DateV NaN) orig =
        Inl (mkError DateParseValidationError Null (DateV NaN) orig p)"
    by (simp add: typecast_date_def isAbsent_def isNumeric_def)
  from a b c d f show ?thesis by simp
qed

theorem date_failures_witness:
  "typecast_date engine (undeclared\<lparr>name := Some ''born'', type_tag := TDate\<rparr>)
       (Str ''tomorrow'') (Plain Undefined) =
     Inl (Err DateParseValidationError (Str ''Could not parse date.'') (Plain (Num NaN))
            (Plain Undefined) (Some ''born'')) \<and>
   typecast_date engine (undeclared\<lparr>name := Some ''born'', type_tag := TDate\<rparr>)
       (Bool True) (Plain Undefined) =
     Inl (Err DateCastError (Str ''Date type cannot typecast Array or Object types.'')
            (Plain (Bool True)) (Plain Undefined) (Some ''born'')) \<and>
   typecast_date engine (undeclared\<lparr>name := Some ''born'', type_tag := TDate\<rparr>)
       (Num PInf) (Plain Undefined) =
     Inl (Err DateParseValidationError (Str ''Could not parse date.'') (Plain (Num PInf))
            (Plain Undefined) (Some ''born'')) \<and>
   typecast_date engine (undeclared\<lparr>name := Some ''born'', type_tag := TDate\<rparr>)
       (DateV NaN) (Plain Undefined) =
     Inl (Err DateParseValidationError (Str ''Could not parse date.'') (Plain (DateV NaN))
            (Plain Undefined) (Some ''born''))"
  using date_failures [of engine "undeclared\<lparr>name := Some ''born'', type_tag := TDate\<rparr>"
      "Bool True" "Plain Undefined"
      "Err DateCastError (Str ''Date type cannot typecast Array or Object types.'')
            (Plain (Bool True)) (Plain Undefined) (Some ''born'')" "''tomorrow''" PInf]
  by (simp add: engine_Date_parse_tomorrow engine_date_toString_NaN isAbsent_def mkError_def
      orDefault_def undeclared_def)

section \<open>Required fields and falsy values\<close>

text \<open>
  Claim C10. Take a field declared required, bare or in pair form, whose condition holds
  on the instance, and let a read of the field return \<open>v\<close> and change nothing. If
  \<open>v\<close> is the boolean \<^verbatim>\<open>false\<close>, the round of \<^verbatim>\<open>getErrors()\<close> for the field adds
  no error, whatever \<^verbatim>\<open>allowFalsyValues\<close> says. If \<open>v\<close> is the empty string or the
  number 0, the round adds no error when \<^verbatim>\<open>allowFalsyValues\<close> is set and otherwise
  adds the required error of the field.
\<close>

theorem required_false_counts_as_provided:
  assumes "required (attrs p) = Some r" and "requiredHolds r (fst st)"
    and "g F (keyOf (name (attrs p))) st = Some (Inr (Plain v), st)"
  shows "(v = Bool False \<longrightarrow>
            getErrors_required g F p (errors, st) = Some (Inr (), (errors, st))) \<and>
         (v = Str [] \<or> v = Num (Fin 0) \<longrightarrow>
            getErrors_required g F p (errors, st) =
              Some (Inr (), (if allowFalsyValues (fopts F) then errors
                             else errors @ [requiredError r (attrs p) (Plain v)], st)))"
  using assms
  by (auto simp add: getErrors_required_def bnd_def requiredHolds_def requiredError_def Let_def
      split: reqd.splits reqcond.splits)

theorem required_false_counts_as_provided_witness:
  "getErrors_required (defineGetter 1 engine) flag_factory
       (Props (undeclared\<lparr>name := Some ''flag'', type_tag := TBoolean,
                 required := Some (RequiredPair (ReqValue (Bool True)) (Str ''flag missing''))\<rparr>)
          None None)
       ([], ([(''flag'', Plain (Bool False))], [])) =
     Some (Inr (), ([], ([(''flag'', Plain (Bool False))], []))) \<and>
   getErrors 2 engine flag_factory ([(''flag'', Plain (Bool False))], []) =
     Some (Inr [], ([(''flag'', Plain (Bool False))], [])) \<and>
   getErrors 2 engine flag_factory ([], []) =
     Some (Inr [Err SetterError (Str ''flag missing'') (Plain Undefined) (Plain Undefined)
                  (Some ''flag'')], ([], []))"
  using required_false_counts_as_provided
    [of "Props (undeclared\<lparr>name := Some ''flag'', type_tag := TBoolean,
                 required := Some (RequiredPair (ReqValue (Bool True)) (Str ''flag missing''))\<rparr>)
          None None"
        "RequiredPair (ReqValue (Bool True)) (Str ''flag missing'')"
        "([(''flag'', Plain (Bool False))], [])"
        "defineGetter 1 engine" flag_factory "Bool False" "[]"]
  by (simp add: requiredHolds_def flag_factory_def eval_nat_numeral step_simps body_defs
      state_defs example_defs)

section \<open>Reading an object or array field\<close>

text \<open>
  Claim C9, as amended. Take a declared field of type object or array without a getter
  hook, in a factory without an \<^verbatim>\<open>onBeforeValueSet\<close> hook, whose schema-defined empty
  value (a new wrapper, the declared default, a new nested instance or a plain empty
  object) is neither \<^verbatim>\<open>undefined\<close> nor \<^verbatim>\<open>null\<close>. A read of the field returns
  the stored value when that is truthy; otherwise it stores the schema-defined empty value
  and returns it. Either way the value read is neither \<^verbatim>\<open>undefined\<close> nor
  \<^verbatim>\<open>null\<close>, and it is the value the field holds after the read.
\<close>

theorem lazy_read:
  assumes fld: "lookupField (fschema F) k = Some p" "name (attrs p) = Some k"
    and ty: "type_tag (attrs p) = TObject \<or> type_tag (attrs p) = TArray"
    and hk: "getter_hook (attrs p) = None" "onBeforeValueSet (fopts F) = None"
    and emp: "schemaDefinedEmpty (Suc n) rt p (fst st) = Some m"
      "m \<noteq> Plain Undefined" "m \<noteq> Plain Null"
  shows "defineGetter (Suc (Suc n)) rt F k st =
           (if truthy_s (readObj (fst st) k) then Some (Inr (readObj (fst st) k), st)
            else Some (Inr m, (assign k m (fst st), snd st))) \<and>
         (\<exists>v st'. defineGetter (Suc (Suc n)) rt F k st = Some (Inr v, st') \<and>
            v \<noteq> Plain Undefined \<and> v \<noteq> Plain Null \<and> readObj (fst st') k = v)"
proof -
  have eq: "defineGetter (Suc (Suc n)) rt F k st =
           (if truthy_s (readObj (fst st) k) then Some (Inr (readObj (fst st) k), st)
            else Some (Inr m, (assign k m (fst st), snd st)))"
    using assms
    by (auto simp add: defineGetter_Suc defineGetter_body_def writeValue_Suc writeValue_body_def
        schemaDefinedEmpty_def bnd_def getter_def vetoed_def keyOf_def readObj_assign
        split: option.splits sum.splits prod.splits if_splits)
  show ?thesis
  proof (cases "truthy_s (readObj (fst st) k)")
    case True
    then have nn: "readObj (fst st) k \<noteq> Plain Undefined" "readObj (fst st) k \<noteq> Plain Null"
      by auto
    from True eq have "defineGetter (Suc (Suc n)) rt F k st = Some (Inr (readObj (fst st) k), st)"
      by simp
    with nn eq show ?thesis by blast
  next
    case False
    with eq have "defineGetter (Suc (Suc n)) rt F k st =
        Some (Inr m, (assign k m (fst st), snd st))"
      by simp
    moreover have "readObj (fst (assign k m (fst st), snd st)) k = m"
      by (simp add: readObj_assign)
    ultimately show ?thesis using eq emp by blast
  qed
qed

text \<open>
  Claim C9 as stated fails: a read of an unset array field returns \<^verbatim>\<open>undefined\<close>
  when the getter hook of the field throws (the error is logged), and when
  \<^verbatim>\<open>onBeforeValueSet\<close> refuses the write of the new wrapper; a read of an unset object
  field with the declared default \<^verbatim>\<open>null\<close> returns \<^verbatim>\<open>null\<close>.
\<close>

theorem lazy_read_counterexample:
  "defineGetter 2 engine throwing_getter_factory ''tags'' ([], []) =
     Some (Inr (Plain Undefined), ([(''tags'', SchemaArray [])], [nativeTypeError])) \<and>
   defineGetter 2 engine veto_factory ''tags'' ([], []) = Some (Inr (Plain Undefined), ([], [])) \<and>
   defineGetter 2 engine null_default_factory ''profile'' ([], []) =
     Some (Inr (Plain Null), ([(''profile'', Plain Null)], []))"
  by (simp add: eval_nat_numeral step_simps body_defs state_defs example_defs
      throwing_getter_factory_def veto_factory_def null_default_factory_def)

theorem lazy_read_witness:
  "defineGetter 2 engine tags_factory ''tags'' ([], []) =
     Some (Inr (SchemaArray []), ([(''tags'', SchemaArray [])], []))"
  using lazy_read [of tags_factory "''tags''" tags_props 0 engine "([], [])" "SchemaArray []"]
  by (simp add: eval_nat_numeral schemaDefinedEmpty_def tags_factory_def tags_props_def
      state_defs example_defs)

section \<open>What schema compilation leaves alone\<close>




lemma length_hset: "length (hset h p k v) = length h"
  by (simp add: hset_def)
















































lemma hash_length: "length hash_heap = 6"
  by (simp add: hash_heap_def)



















end
